theory Spec2Isabelle
  imports Main "HOL-Library.Option_ord"
begin

section \<open>JSON values and replies\<close>

text \<open>
  The servers answer with \<^verbatim>\<open>res.status(n).json(obj)\<close>, \<^verbatim>\<open>res.json(obj)\<close> (status 200) or
  \<^verbatim>\<open>res.sendFile(path)\<close>. A request that no route answers, and a handler that throws, end
  in Express's final handler, which sends a bare status (404, respectively 500).
  \<open>Rejection\<close> is the end of a request whose handler awaits a promise that rejects where
  no \<^verbatim>\<open>try\<close> encloses it: no response is sent, and Node (from version 15) ends the
  process on the unhandled rejection. \<open>status_of\<close> is 0 there, for want of a status line.
\<close>

datatype json =
  JNull
| JBool bool
| JNum int
| JStr string
| JArr "json list"
| JObj "(string \<times> json) list"

datatype reply =
  Json nat json
| SendFile string
| Final nat
| Rejection

fun status_of :: "reply \<Rightarrow> nat" where
  "status_of (Json n b) = n"
| "status_of (SendFile p) = 200"
| "status_of (Final n) = n"
| "status_of Rejection = 0"

definition error_body :: "string \<Rightarrow> json" where
  "error_body msg = JObj [(''error'', JStr msg)]"

text \<open>\<^verbatim>\<open>String.prototype.includes\<close>: the argument occurs as a contiguous piece.\<close>

fun str_includes :: "string \<Rightarrow> string \<Rightarrow> bool" where
  "str_includes [] sub = (sub = [])"
| "str_includes (c # cs) sub = (take (length sub) (c # cs) = sub \<or> str_includes cs sub)"

section \<open>The SQLite tables\<close>

text \<open>
  Rows carry the columns of the \<^verbatim>\<open>CREATE TABLE\<close> statements. A column that an
  \<^verbatim>\<open>INSERT\<close> binds to \<^verbatim>\<open>undefined\<close> or \<^verbatim>\<open>null\<close> holds NULL, which is \<open>None\<close>.
  \<open>users_seq\<close> and \<open>user_progress_seq\<close> are the \<^verbatim>\<open>AUTOINCREMENT\<close> counters: the
  largest rowid the table ever held. The errors of a statement are those that the
  tables' constraints and columns cause; a failing disk or a locked file is outside
  the model, and so are the failures of the session store.
\<close>

record user_row =
  u_id :: nat
  u_username :: string
  u_email :: string
  u_password_hash :: string
  u_created_at :: nat

record progress_row =
  p_id :: nat
  p_user_id :: nat
  p_module_id :: int
  p_completed :: "bool option"
  p_score :: "int option"
  p_time_spent :: "int option"
  p_last_accessed :: nat

record module_row =
  m_id :: int
  m_title :: string
  m_description :: "string option"
  m_content :: "string option"
  m_order_index :: "int option"

record database =
  users :: "user_row list"
  users_seq :: nat
  user_progress :: "progress_row list"
  user_progress_seq :: nat
  modules_table :: "module_row list"

definition empty_database :: database where
  "empty_database =
     \<lparr>users = [], users_seq = 0, user_progress = [], user_progress_seq = 0,
      modules_table = []\<rparr>"

datatype db_error =
  UniqueFailed string
| NotNullFailed string
| NoSuchColumn string string

fun message :: "db_error \<Rightarrow> string" where
  "message (UniqueFailed col) = ''SQLITE_CONSTRAINT: UNIQUE constraint failed: '' @ col"
| "message (NotNullFailed col) = ''SQLITE_CONSTRAINT: NOT NULL constraint failed: '' @ col"
| "message (NoSuchColumn tbl col) =
     ''SQLITE_ERROR: table '' @ tbl @ '' has no column named '' @ col"

text \<open>
  \<^verbatim>\<open>INSERT INTO users (username, email, password_hash) VALUES (?, ?, ?)\<close> against
  \<^verbatim>\<open>username TEXT UNIQUE NOT NULL, email TEXT UNIQUE NOT NULL\<close>. On success the
  callback's \<^verbatim>\<open>this.lastID\<close> is the new rowid.
\<close>

definition insert_user ::
  "database \<Rightarrow> nat \<Rightarrow> string \<Rightarrow> string \<Rightarrow> string \<Rightarrow> db_error + (database \<times> nat)" where
  "insert_user d t name mail pwhash =
     (if list_ex (\<lambda>u. u_username u = name) (users d)
        then Inl (UniqueFailed ''users.username'')
      else if list_ex (\<lambda>u. u_email u = mail) (users d)
        then Inl (UniqueFailed ''users.email'')
      else
        let lastID = users_seq d + 1 in
        Inr (d\<lparr>users := users d @
                 [\<lparr>u_id = lastID, u_username = name, u_email = mail,
                   u_password_hash = pwhash, u_created_at = t\<rparr>],
               users_seq := lastID\<rparr>, lastID))"

text \<open>\<^verbatim>\<open>SELECT * FROM users WHERE username = ?\<close> through \<^verbatim>\<open>db.get\<close>: the first row or
  \<^verbatim>\<open>undefined\<close>.\<close>

definition select_user :: "database \<Rightarrow> string \<Rightarrow> user_row option" where
  "select_user d name = find (\<lambda>u. u_username u = name) (users d)"

section \<open>Requests and sessions\<close>

datatype verb = GET | POST | PUT | DELETE

text \<open>
  The password of a request body is any JSON value. Of a value that is not a string the
  handlers read two things only, both fixed by JavaScript's coercions: whether it is
  truthy (\<^verbatim>\<open>!password\<close>), and whether \<^verbatim>\<open>password.length < 6\<close> holds (true of an array of
  fewer than six elements, false of a number or a boolean, whose \<^verbatim>\<open>length\<close> is
  \<^verbatim>\<open>undefined\<close>). \<open>NotText\<close> carries these two facts. An absent password is
  \<^verbatim>\<open>undefined\<close>: not text, falsy, its length not below 6 since reading it is never
  reached.
\<close>

datatype password = Text string | NotText bool bool

fun falsy :: "password \<Rightarrow> bool" where
  "falsy (Text p) = (p = [])"
| "falsy (NotText truthy short) = (\<not> truthy)"

fun length_below_6 :: "password \<Rightarrow> bool" where
  "length_below_6 (Text p) = (length p < 6)"
| "length_below_6 (NotText truthy short) = short"

text \<open>
  A request, after \<^verbatim>\<open>express.json()\<close>; a body that does not parse is answered by the
  error path before the session middleware and the routes and is no request here. The
  fields \<open>b_username\<close> and \<open>b_email\<close> are strings; a field that is absent and a field
  that is the empty string are both falsy in JavaScript and take the same branch of every
  \<^verbatim>\<open>!field\<close> test, so an absent one is the empty string here. \<open>req_path\<close> is the path
  of the URL as the list of its segments, see \<open>segments\<close> below. \<open>cookie\<close> is the
  session identifier of a correctly signed \<^verbatim>\<open>codetrain.sid\<close> cookie, if the request
  carries one. \<open>fresh_id\<close> and \<open>regen_id\<close> are the identifiers that the session
  middleware's random generator yields during this request, if it is asked for a new
  session and for a regenerated one. \<open>now\<close> is the clock. Strings are byte strings; on
  ASCII text \<open>length\<close> is JavaScript's \<^verbatim>\<open>.length\<close>.
\<close>

record request =
  meth :: verb
  req_path :: "string list"
  cookie :: "string option"
  fresh_id :: string
  regen_id :: string
  now :: nat
  b_username :: string
  b_email :: string
  b_password :: password
  b_moduleId :: "int option"
  b_completed :: "bool option"
  b_score :: "int option"
  b_timeSpent :: "int option"

text \<open>\<^verbatim>\<open>req.session\<close> together with \<^verbatim>\<open>req.sessionID\<close>.\<close>

record session =
  sessionID :: string
  userId :: "nat option"
  username :: "string option"

text \<open>\<^verbatim>\<open>!req.session.userId\<close> is false exactly when the field holds a number other than 0.\<close>

definition has_userId :: "session \<Rightarrow> bool" where
  "has_userId s = (case userId s of None \<Rightarrow> False | Some n \<Rightarrow> n \<noteq> 0)"

text \<open>
  What a handler leaves behind: the reply, the session (\<open>None\<close> once
  \<^verbatim>\<open>req.session.destroy\<close> ran), the cookies named in \<^verbatim>\<open>res.clearCookie\<close>, the database.
\<close>

record outcome =
  reply :: reply
  sess :: "session option"
  cleared :: "string list"
  db :: database

definition respond :: "reply \<Rightarrow> session \<Rightarrow> database \<Rightarrow> outcome" where
  "respond r s d = \<lparr>reply = r, sess = Some s, cleared = [], db = d\<rparr>"

text \<open>
  \<^verbatim>\<open>bcryptjs\<close> is a library outside the repository: its two functions, on strings, are
  parameters. Called with a password that is not a string, both return a promise that
  rejects (\<^verbatim>\<open>Illegal arguments\<close>).
\<close>

record bcrypt =
  bcrypt_hash :: "string \<Rightarrow> string"
  bcrypt_compare :: "string \<Rightarrow> string \<Rightarrow> bool"

section \<open>Authentication routes\<close>

definition user_json :: "nat \<Rightarrow> string \<Rightarrow> string \<Rightarrow> json" where
  "user_json i name mail =
     JObj [(''id'', JNum (int i)), (''username'', JStr name), (''email'', JStr mail)]"

text \<open>
  \<^verbatim>\<open>POST /api/auth/register\<close>, the same in the development and the production
  server. \<^verbatim>\<open>await bcrypt.hash(password, 10)\<close> stands inside the handler's \<^verbatim>\<open>try\<close>: its
  rejection is caught and answered 500 \<^verbatim>\<open>Internal server error\<close>.
\<close>

definition auth_register :: "bcrypt \<Rightarrow> request \<Rightarrow> session \<Rightarrow> database \<Rightarrow> outcome" where
  "auth_register bc req s d =
     (if b_username req = [] \<or> b_email req = [] \<or> falsy (b_password req)
        then respond (Json 400 (error_body ''All fields are required'')) s d
      else if length_below_6 (b_password req)
        then respond (Json 400 (error_body ''Password must be at least 6 characters'')) s d
      else
        case b_password req of
          NotText truthy short \<Rightarrow>
            respond (Json 500 (error_body ''Internal server error'')) s d
        | Text p \<Rightarrow>
            let passwordHash = bcrypt_hash bc p in
            (case insert_user d (now req) (b_username req) (b_email req) passwordHash of
               Inl err \<Rightarrow>
                 if str_includes (message err) ''UNIQUE constraint failed''
                   then respond (Json 400 (error_body ''Username or email already exists'')) s d
                   else respond (Json 500 (error_body ''Database error'')) s d
             | Inr (d', lastID) \<Rightarrow>
                 respond
                   (Json 200 (JObj [(''message'', JStr ''Registration successful!''),
                                    (''user'', user_json lastID (b_username req) (b_email req))]))
                   (s\<lparr>userId := Some lastID, username := Some (b_username req)\<rparr>) d'))"

text \<open>
  \<^verbatim>\<open>POST /api/auth/login\<close>, the same in the development and the production server:
  the session that the request arrived with receives the user. The password is compared
  in the \<^verbatim>\<open>async\<close> callback of \<^verbatim>\<open>db.get\<close>, which runs after the handler's \<^verbatim>\<open>try\<close> was
  left: when \<^verbatim>\<open>await bcrypt.compare(password, user.password_hash)\<close> rejects, for a
  password that is not a string, nothing catches it.
\<close>

definition auth_login :: "bcrypt \<Rightarrow> request \<Rightarrow> session \<Rightarrow> database \<Rightarrow> outcome" where
  "auth_login bc req s d =
     (if b_username req = [] \<or> falsy (b_password req)
        then respond (Json 400 (error_body ''Username and password are required'')) s d
      else
        case select_user d (b_username req) of
          None \<Rightarrow> respond (Json 401 (error_body ''Invalid username or password'')) s d
        | Some user \<Rightarrow>
            (case b_password req of
               NotText truthy short \<Rightarrow> respond Rejection s d
             | Text p \<Rightarrow>
                 if \<not> bcrypt_compare bc p (u_password_hash user)
                   then respond (Json 401 (error_body ''Invalid username or password'')) s d
                   else
                     respond
                       (Json 200 (JObj [(''message'', JStr ''Login successful!''),
                                        (''user'', user_json (u_id user) (u_username user)
                                                     (u_email user))]))
                       (s\<lparr>userId := Some (u_id user),
                           username := Some (u_username user)\<rparr>) d))"

text \<open>
  \<^verbatim>\<open>POST /api/auth/login\<close> of the Railway server: as above up to the password check,
  then \<^verbatim>\<open>req.session.regenerate\<close> replaces the session by an empty one under a newly
  generated identifier before the user is stored in it.
\<close>

definition auth_login_railway :: "bcrypt \<Rightarrow> request \<Rightarrow> session \<Rightarrow> database \<Rightarrow> outcome" where
  "auth_login_railway bc req s d =
     (if b_username req = [] \<or> falsy (b_password req)
        then respond (Json 400 (error_body ''Username and password are required'')) s d
      else
        case select_user d (b_username req) of
          None \<Rightarrow> respond (Json 401 (error_body ''Invalid username or password'')) s d
        | Some user \<Rightarrow>
            (case b_password req of
               NotText truthy short \<Rightarrow> respond Rejection s d
             | Text p \<Rightarrow>
                 if \<not> bcrypt_compare bc p (u_password_hash user)
                   then respond (Json 401 (error_body ''Invalid username or password'')) s d
                   else
                     let regenerated =
                           \<lparr>sessionID = regen_id req, userId = None, username = None\<rparr> in
                     respond
                       (Json 200 (JObj [(''message'', JStr ''Login successful!''),
                                        (''user'', user_json (u_id user) (u_username user)
                                                     (u_email user))]))
                       (regenerated\<lparr>userId := Some (u_id user),
                                     username := Some (u_username user)\<rparr>) d))"

text \<open>\<^verbatim>\<open>POST /api/auth/logout\<close>, the same in the development and the production
  server: \<^verbatim>\<open>req.session.destroy\<close> and the confirmation, nothing else.\<close>

definition auth_logout :: "request \<Rightarrow> session \<Rightarrow> database \<Rightarrow> outcome" where
  "auth_logout req s d =
     \<lparr>reply = Json 200 (JObj [(''message'', JStr ''Logout successful'')]),
      sess = None, cleared = [], db = d\<rparr>"

text \<open>\<^verbatim>\<open>POST /api/auth/logout\<close> of the Railway server, which also calls
  \<^verbatim>\<open>res.clearCookie('codetrain.sid', ...)\<close>.\<close>

definition auth_logout_railway :: "request \<Rightarrow> session \<Rightarrow> database \<Rightarrow> outcome" where
  "auth_logout_railway req s d =
     \<lparr>reply = Json 200 (JObj [(''message'', JStr ''Logout successful'')]),
      sess = None, cleared = [''codetrain.sid''], db = d\<rparr>"

text \<open>\<^verbatim>\<open>JSON.stringify\<close> leaves out the properties whose value is \<^verbatim>\<open>undefined\<close>.\<close>

definition stringify_obj :: "(string \<times> json option) list \<Rightarrow> json" where
  "stringify_obj kvs = JObj (List.map_filter (\<lambda>(k, v). map_option (Pair k) v) kvs)"

text \<open>\<^verbatim>\<open>GET /api/auth/me\<close>.\<close>

definition auth_me :: "request \<Rightarrow> session \<Rightarrow> database \<Rightarrow> outcome" where
  "auth_me req s d =
     (if \<not> has_userId s
        then respond (Json 401 (error_body ''Not authenticated'')) s d
      else
        respond
          (Json 200 (JObj [(''user'',
             stringify_obj [(''id'', map_option (\<lambda>n. JNum (int n)) (userId s)),
                            (''username'', map_option JStr (username s))])]))
          s d)"

section \<open>Training routes of the development server\<close>

fun json_opt :: "('a \<Rightarrow> json) \<Rightarrow> 'a option \<Rightarrow> json" where
  "json_opt f None = JNull"
| "json_opt f (Some x) = f x"

definition module_row_json :: "module_row \<Rightarrow> json" where
  "module_row_json m =
     JObj [(''id'', JNum (m_id m)), (''title'', JStr (m_title m)),
           (''description'', json_opt JStr (m_description m)),
           (''content'', json_opt JStr (m_content m)),
           (''order_index'', json_opt JNum (m_order_index m))]"

text \<open>\<^verbatim>\<open>GET /api/modules\<close> as registered first:
  \<^verbatim>\<open>SELECT * FROM modules ORDER BY order_index\<close>.\<close>

definition get_modules_db :: "request \<Rightarrow> session \<Rightarrow> database \<Rightarrow> outcome" where
  "get_modules_db req s d =
     respond
       (Json 200 (JObj [(''modules'',
          JArr (map module_row_json (sort_key m_order_index (modules_table d))))]))
       s d"

text \<open>
  The two shapes of \<^verbatim>\<open>user_progress\<close> in the repository. The development server creates
  it with the columns id, user_id, module_id, completed, last_accessed; the Railway server
  adds score and time_spent and the constraint \<^verbatim>\<open>UNIQUE(user_id, module_id)\<close>. Both
  use \<^verbatim>\<open>CREATE TABLE IF NOT EXISTS\<close> on the same database file.
\<close>

record progress_schema =
  has_score_columns :: bool
  unique_user_module :: bool

definition schema_development :: progress_schema where
  "schema_development = \<lparr>has_score_columns = False, unique_user_module = False\<rparr>"

definition schema_railway :: progress_schema where
  "schema_railway = \<lparr>has_score_columns = True, unique_user_module = True\<rparr>"

definition progress_row_json :: "progress_schema \<Rightarrow> progress_row \<Rightarrow> string \<Rightarrow> json" where
  "progress_row_json sch r title =
     JObj ([(''id'', JNum (int (p_id r))), (''user_id'', JNum (int (p_user_id r))),
            (''module_id'', JNum (p_module_id r)),
            (''completed'', json_opt (\<lambda>b. JNum (if b then 1 else 0)) (p_completed r))] @
           (if has_score_columns sch
              then [(''score'', json_opt JNum (p_score r)),
                    (''time_spent'', json_opt JNum (p_time_spent r))]
              else []) @
           [(''last_accessed'', JNum (int (p_last_accessed r))), (''title'', JStr title)])"

text \<open>\<^verbatim>\<open>SELECT up.*, m.title FROM user_progress up JOIN modules m ON up.module_id = m.id
  WHERE up.user_id = ?\<close>: one result row for each pair of a progress row of the user and a
  module row with that id.\<close>

definition select_progress :: "database \<Rightarrow> nat \<Rightarrow> (progress_row \<times> string) list" where
  "select_progress d uid =
     concat (map (\<lambda>up. map (\<lambda>m. (up, m_title m))
                         (filter (\<lambda>m. p_module_id up = m_id m) (modules_table d)))
                 (filter (\<lambda>up. p_user_id up = uid) (user_progress d)))"

text \<open>\<^verbatim>\<open>GET /api/progress\<close>. The branch on \<open>userId\<close> is the test
  \<^verbatim>\<open>!req.session.userId\<close>: undefined and 0 are the falsy values.\<close>

definition get_progress :: "progress_schema \<Rightarrow> request \<Rightarrow> session \<Rightarrow> database \<Rightarrow> outcome" where
  "get_progress sch req s d =
     (case userId s of
        None \<Rightarrow> respond (Json 401 (error_body ''Not authenticated'')) s d
      | Some uid \<Rightarrow>
          if uid = 0 then respond (Json 401 (error_body ''Not authenticated'')) s d
          else
            respond
              (Json 200 (JObj [(''progress'',
                 JArr (map (\<lambda>(r, t). progress_row_json sch r t) (select_progress d uid)))]))
              s d)"

text \<open>
  \<^verbatim>\<open>INSERT OR REPLACE INTO user_progress (user_id, module_id, completed, score,
  time_spent) VALUES (?, ?, ?, ?, ?)\<close>. The statement names the columns score and
  time_spent, so it does not compile against a table without them. \<^verbatim>\<open>module_id\<close> is
  \<^verbatim>\<open>NOT NULL\<close> without a default. \<^verbatim>\<open>OR REPLACE\<close> deletes the rows that collide with the
  new one on a uniqueness constraint; the rowid is generated, so the only constraint that
  can collide is \<^verbatim>\<open>UNIQUE(user_id, module_id)\<close>, where the table has it.
\<close>

definition insert_or_replace_progress ::
  "progress_schema \<Rightarrow> database \<Rightarrow> nat \<Rightarrow> nat \<Rightarrow> int option \<Rightarrow> bool option \<Rightarrow> int option \<Rightarrow>
     int option \<Rightarrow> db_error + database" where
  "insert_or_replace_progress sch d t uid moduleId completed score timeSpent =
     (if \<not> has_score_columns sch then Inl (NoSuchColumn ''user_progress'' ''score'')
      else
        case moduleId of
          None \<Rightarrow> Inl (NotNullFailed ''user_progress.module_id'')
        | Some mid \<Rightarrow>
            let kept =
                  (if unique_user_module sch
                     then filter (\<lambda>r. \<not> (p_user_id r = uid \<and> p_module_id r = mid))
                            (user_progress d)
                     else user_progress d);
                lastID = user_progress_seq d + 1
            in Inr (d\<lparr>user_progress := kept @
                         [\<lparr>p_id = lastID, p_user_id = uid, p_module_id = mid,
                           p_completed = completed, p_score = score,
                           p_time_spent = timeSpent, p_last_accessed = t\<rparr>],
                       user_progress_seq := lastID\<rparr>))"

text \<open>\<^verbatim>\<open>POST /api/progress\<close>.\<close>

definition post_progress :: "progress_schema \<Rightarrow> request \<Rightarrow> session \<Rightarrow> database \<Rightarrow> outcome" where
  "post_progress sch req s d =
     (case userId s of
        None \<Rightarrow> respond (Json 401 (error_body ''Not authenticated'')) s d
      | Some uid \<Rightarrow>
          if uid = 0 then respond (Json 401 (error_body ''Not authenticated'')) s d
          else
            (case insert_or_replace_progress sch d (now req) uid (b_moduleId req)
                    (b_completed req) (b_score req) (b_timeSpent req) of
               Inl err \<Rightarrow> respond (Json 500 (error_body ''Database error'')) s d
             | Inr d' \<Rightarrow>
                 respond (Json 200 (JObj [(''message'', JStr ''Progress saved successfully'')]))
                   s d'))"

text \<open>\<^verbatim>\<open>GET /api/health\<close>.\<close>

definition get_health :: "request \<Rightarrow> session \<Rightarrow> database \<Rightarrow> outcome" where
  "get_health req s d =
     respond
       (Json 200 (JObj [(''status'', JStr ''OK''),
                        (''message'', JStr ''Student Training Platform is running''),
                        (''timestamp'', JNum (int (now req)))]))
       s d"

text \<open>\<^verbatim>\<open>app.get('*', ...)\<close>: the front end's entry document.\<close>

definition spa_fallback :: "request \<Rightarrow> session \<Rightarrow> database \<Rightarrow> outcome" where
  "spa_fallback req s d = respond (SendFile ''../frontend/index.html'') s d"

section \<open>The static module catalog\<close>

text \<open>
  The array \<^verbatim>\<open>modules\<close> that the second \<^verbatim>\<open>GET /api/modules\<close> handler declares in its own
  body. Strings are their UTF-8 bytes; the texts that span several lines or are long are
  constants of their own.
\<close>

definition module_1_story :: string where
  \<open>module_1_story =
     [CHR 0xF0, CHR 0x9F, CHR 0xA7, CHR 0xAD] @
     '' Welcome to Python! Think of Python as teaching a robot to follow '' @
     ''your instructions.\<newline>'' @
     ''                \<newline>'' @
     ''                When you type commands, your robot listens carefully '' @
     ''and does exactly what you say.\<newline>'' @
     ''                \<newline>'' @
     ''                Let's start with the most important command '' @
     ''- making your robot speak!''\<close>

definition module_1_concept_1_explanation :: string where
  \<open>module_1_concept_1_explanation =
     ''The print() function is how your Python robot speaks to you. '' @
     ''Whatever you put inside the parentheses, your robot will say '' @
     ''out loud!''\<close>

definition module_1_concept_1_example :: string where
  \<open>module_1_concept_1_example =
     ''print("Hello, world!")  # Robot says: Hello, world!\<newline>'' @
     ''print("I'm learning Python!")  # Robot says: I'm learning Python!''\<close>

definition module_1_concept_1_analogy :: string where
  \<open>module_1_concept_1_analogy =
     ''Think of print() like telling your robot: 'Say this out loud!'' @
     [CHR 0x27]\<close>

definition module_1_concept_2_explanation :: string where
  \<open>module_1_concept_2_explanation =
     ''Variables are like labeled boxes where you can store information. '' @
     ''Once you put something in a box, you can use the label to get '' @
     ''it back later.''\<close>

definition module_1_concept_2_example :: string where
  \<open>module_1_concept_2_example =
     ''# Create variables (storage boxes)\<newline>'' @
     ''name = "Alex"\<newline>'' @
     ''age = 12\<newline>'' @
     ''is_student = True\<newline>'' @
     ''\<newline>'' @
     ''# Use the variables\<newline>'' @
     ''print("Hello, " + name)\<newline>'' @
     ''print("You are " + str(age) + " years old")''\<close>

definition module_1_concept_2_analogy :: string where
  \<open>module_1_concept_2_analogy =
     ''Variables are like name tags on your school supplies - you put '' @
     ''a label so you can find it later!''\<close>

definition module_1_concept_3_explanation :: string where
  \<open>module_1_concept_3_explanation =
     ''Python understands different types of information, just like '' @
     ''you understand numbers, words, and true/false questions.''\<close>

definition module_1_concept_3_example :: string where
  \<open>module_1_concept_3_example =
     ''# String - for text (words)\<newline>'' @
     ''name = "Sarah"\<newline>'' @
     ''message = "Hello there!"\<newline>'' @
     ''\<newline>'' @
     ''# Integer - for whole numbers\<newline>'' @
     ''age = 13\<newline>'' @
     ''score = 95\<newline>'' @
     ''\<newline>'' @
     ''# Float - for decimal numbers\<newline>'' @
     ''height = 1.65\<newline>'' @
     ''temperature = 23.5\<newline>'' @
     ''\<newline>'' @
     ''# Boolean - for True/False\<newline>'' @
     ''is_sunny = True\<newline>'' @
     ''is_raining = False''\<close>

definition module_1_concept_3_analogy :: string where
  \<open>module_1_concept_3_analogy =
     ''Data types are like different subjects in school - math uses '' @
     ''numbers, English uses words, science uses true/false experiments!''\<close>

definition module_1_exercise_1_description :: string where
  \<open>module_1_exercise_1_description =
     ''Create a program that greets you by name and tells you your '' @
     ''age''\<close>

definition module_1_exercise_1_starter_code :: string where
  \<open>module_1_exercise_1_starter_code =
     ''# TODO: Create variables for your name and age\<newline>'' @
     ''name = "Your Name Here"\<newline>'' @
     ''age = 12\<newline>'' @
     ''\<newline>'' @
     ''# TODO: Make the robot greet you\<newline>'' @
     ''print("")''\<close>

definition module_1_exercise_1_solution :: string where
  \<open>module_1_exercise_1_solution =
     ''name = "Alex"\<newline>'' @
     ''age = 12\<newline>'' @
     ''\<newline>'' @
     ''print("Hello, " + name + "!")\<newline>'' @
     ''print("You are " + str(age) + " years old!")\<newline>'' @
     ''print("Nice to meet you!")''\<close>

definition module_1_exercise_2_description :: string where
  \<open>module_1_exercise_2_description =
     ''Calculate how old you would be in dog years (1 human year = '' @
     ''7 dog years)''\<close>

definition module_1_exercise_2_starter_code :: string where
  \<open>module_1_exercise_2_starter_code =
     ''# TODO: Calculate dog years\<newline>'' @
     ''human_age = 12\<newline>'' @
     ''dog_years = \<newline>'' @
     ''\<newline>'' @
     ''print("If you're " + str(human_age) + " in human years...")\<newline>'' @
     ''print("You're " + str(dog_years) + " in dog years!")''\<close>

definition module_1_exercise_2_solution :: string where
  \<open>module_1_exercise_2_solution =
     ''human_age = 12\<newline>'' @
     ''dog_years = human_age * 7\<newline>'' @
     ''\<newline>'' @
     ''print("If you're " + str(human_age) + " in human years...")\<newline>'' @
     ''print("You're " + str(dog_years) + " in dog years!")''\<close>

definition module_1_question_1_explanation :: string where
  \<open>module_1_question_1_explanation =
     ''print() displays text on the screen - it's how your Python robot 'speaks' '' @
     ''to you!''\<close>

definition module_1_question_2_explanation :: string where
  \<open>module_1_question_2_explanation =
     ''Variable names can't have spaces, can't start with numbers, '' @
     ''and can't be Python keywords like 'print'' @
     [CHR 0x27]\<close>

definition module_2_story :: string where
  \<open>module_2_story =
     [CHR 0xF0, CHR 0x9F, CHR 0x8E, CHR 0xA9] @
     '' Welcome to Functions - where you teach your robot magic tricks!\<newline>'' @
     ''                \<newline>'' @
     ''                Functions are like recipes. Once you create '' @
     ''a recipe (like "how to make a sandwich"), you can use it anytime '' @
     ''without writing all the steps again.\<newline>'' @
     ''                \<newline>'' @
     ''                Let's teach your robot some cool tricks!''\<close>

definition module_2_concept_1_explanation :: string where
  \<open>module_2_concept_1_explanation =
     ''Functions are blocks of code that you can define once and use '' @
     ''many times. They make your code organized and reusable.''\<close>

definition module_2_concept_1_example :: string where
  \<open>module_2_concept_1_example =
     ''# Define a function (create a recipe)\<newline>'' @
     ''def greet():\<newline>'' @
     ''    print("Hello there!")\<newline>'' @
     ''    print("Welcome to Python!")\<newline>'' @
     ''\<newline>'' @
     ''# Use the function (follow the recipe)\<newline>'' @
     ''greet()\<newline>'' @
     ''greet()  # You can use it multiple times!''\<close>

definition module_2_concept_1_analogy :: string where
  \<open>module_2_concept_1_analogy =
     ''Functions are like dance routines - learn the steps once, then '' @
     ''perform them anytime!''\<close>

definition module_2_concept_2_explanation :: string where
  \<open>module_2_concept_2_explanation =
     ''Parameters let you pass information to functions, making them '' @
     ''flexible and customizable.''\<close>

definition module_2_concept_2_example :: string where
  \<open>module_2_concept_2_example =
     ''# Function with parameters\<newline>'' @
     ''def greet_person(name):\<newline>'' @
     ''    print("Hello, " + name + "!")\<newline>'' @
     ''    print("Nice to meet you!")\<newline>'' @
     ''\<newline>'' @
     ''# Use with different names\<newline>'' @
     ''greet_person("Alice")\<newline>'' @
     ''greet_person("Bob")\<newline>'' @
     ''greet_person("Charlie")''\<close>

definition module_2_concept_2_analogy :: string where
  \<open>module_2_concept_2_analogy =
     ''Parameters are like blank spaces in a mad lib - you fill them '' @
     ''in differently each time!''\<close>

definition module_2_concept_3_explanation :: string where
  \<open>module_2_concept_3_explanation =
     ''Functions can return values back to you, like a calculator giving '' @
     ''you the answer to a math problem.''\<close>

definition module_2_concept_3_example :: string where
  \<open>module_2_concept_3_example =
     ''# Function that returns a value\<newline>'' @
     ''def add_numbers(a, b):\<newline>'' @
     ''    result = a + b\<newline>'' @
     ''    return result\<newline>'' @
     ''\<newline>'' @
     ''# Use the returned value\<newline>'' @
     ''sum = add_numbers(5, 3)\<newline>'' @
     ''print("The sum is: " + str(sum))\<newline>'' @
     ''\<newline>'' @
     ''# You can use it directly in print\<newline>'' @
     ''print("10 + 15 = " + str(add_numbers(10, 15)))''\<close>

definition module_2_concept_3_analogy :: string where
  \<open>module_2_concept_3_analogy =
     ''Return values are like asking a question and getting an answer '' @
     ''- the function does the work and gives you back the result!''\<close>

definition module_2_exercise_1_description :: string where
  \<open>module_2_exercise_1_description =
     ''Create a set of math helper functions for common calculations''\<close>

definition module_2_exercise_1_starter_code :: string where
  \<open>module_2_exercise_1_starter_code =
     ''# TODO: Create math functions\<newline>'' @
     ''def add(a, b):\<newline>'' @
     ''    # Return the sum of a and b\<newline>'' @
     ''    return\<newline>'' @
     ''\<newline>'' @
     ''def multiply(a, b):\<newline>'' @
     ''    # Return a multiplied by b\<newline>'' @
     ''    return\<newline>'' @
     ''\<newline>'' @
     ''def square(x):\<newline>'' @
     ''    # Return x squared (x * x)\<newline>'' @
     ''    return\<newline>'' @
     ''\<newline>'' @
     ''# Test your functions\<newline>'' @
     ''print("5 + 3 = " + str(add(5, 3)))\<newline>'' @
     ''print("4 * 6 = " + str(multiply(4, 6)))\<newline>'' @
     ''print("7 squared = " + str(square(7)))''\<close>

definition module_2_exercise_1_solution :: string where
  \<open>module_2_exercise_1_solution =
     ''def add(a, b):\<newline>'' @
     ''    return a + b\<newline>'' @
     ''\<newline>'' @
     ''def multiply(a, b):\<newline>'' @
     ''    return a * b\<newline>'' @
     ''\<newline>'' @
     ''def square(x):\<newline>'' @
     ''    return x * x\<newline>'' @
     ''\<newline>'' @
     ''print("5 + 3 = " + str(add(5, 3)))\<newline>'' @
     ''print("4 * 6 = " + str(multiply(4, 6))) \<newline>'' @
     ''print("7 squared = " + str(square(7)))''\<close>

definition modules :: "json list" where
  \<open>modules = [
     JObj [
       (''id'', JNum 1),
       (''title'', JStr ''Hello Python - Talking to the Computer''),
       (''description'', JStr ''Learn the basics of Python programming''),
       (''difficulty'', JStr ''beginner''),
       (''estimated_time'', JStr ''30 minutes''),
       (''order_index'', JNum 1),
       (''content'', JObj [
         (''story'', JStr module_1_story),
         (''concepts'', JArr [
           JObj [
             (''title'', JStr ''Print Function - Making the Robot Speak''),
             (''explanation'', JStr module_1_concept_1_explanation),
             (''example'', JStr module_1_concept_1_example),
             (''analogy'', JStr module_1_concept_1_analogy)],
           JObj [
             (''title'', JStr ''Variables - Naming Your Storage Boxes''),
             (''explanation'', JStr module_1_concept_2_explanation),
             (''example'', JStr module_1_concept_2_example),
             (''analogy'', JStr module_1_concept_2_analogy)],
           JObj [
             (''title'', JStr ''Data Types - Different Kinds of Information''),
             (''explanation'', JStr module_1_concept_3_explanation),
             (''example'', JStr module_1_concept_3_example),
             (''analogy'', JStr module_1_concept_3_analogy)]]),
         (''exercises'', JArr [
           JObj [
             (''title'', JStr ''Make Your Robot Greet You''),
             (''description'', JStr module_1_exercise_1_description),
             (''starter_code'', JStr module_1_exercise_1_starter_code),
             (''solution'', JStr module_1_exercise_1_solution),
             (''hints'', JArr [
               JStr ''Use the print() function to make the robot speak'',
               JStr ''Combine text and variables using the + operator'',
               JStr ''Don't forget to convert numbers to text using str()''])],
           JObj [
             (''title'', JStr ''Dog Years Calculator''),
             (''description'', JStr module_1_exercise_2_description),
             (''starter_code'', JStr module_1_exercise_2_starter_code),
             (''solution'', JStr module_1_exercise_2_solution),
             (''hints'', JArr [
               JStr ''Multiply human_age by 7 to get dog years'',
               JStr ''Make sure to use the multiplication operator *'',
               JStr ''Check your math - 12 human years should be 84 dog years!''])]]),
         (''quiz'', JArr [
           JObj [
             (''question'', JStr ''What does the print() function do?''),
             (''options'', JArr [
               JStr ''Makes the computer print on paper'',
               JStr ''Displays text on the screen'',
               JStr ''Creates a new variable'',
               JStr ''Does math calculations'']),
             (''correct'', JNum 1),
             (''explanation'', JStr module_1_question_1_explanation)],
           JObj [
             (''question'', JStr ''Which of these is a valid variable name?''),
             (''options'', JArr [
               JStr ''my name'',
               JStr ''123name'',
               JStr ''my_name'',
               JStr ''print'']),
             (''correct'', JNum 2),
             (''explanation'', JStr module_1_question_2_explanation)]])])],
     JObj [
       (''id'', JNum 2),
       (''title'', JStr ''Functions - Teaching the Robot New Tricks''),
       (''description'', JStr ''Learn to create reusable code with functions''),
       (''difficulty'', JStr ''beginner''),
       (''estimated_time'', JStr ''45 minutes''),
       (''order_index'', JNum 2),
       (''content'', JObj [
         (''story'', JStr module_2_story),
         (''concepts'', JArr [
           JObj [
             (''title'', JStr ''Creating Functions - Writing Your Recipes''),
             (''explanation'', JStr module_2_concept_1_explanation),
             (''example'', JStr module_2_concept_1_example),
             (''analogy'', JStr module_2_concept_1_analogy)],
           JObj [
             (''title'', JStr ''Function Parameters - Customizing Your Recipes''),
             (''explanation'', JStr module_2_concept_2_explanation),
             (''example'', JStr module_2_concept_2_example),
             (''analogy'', JStr module_2_concept_2_analogy)],
           JObj [
             (''title'', JStr ''Return Values - Getting Answers Back''),
             (''explanation'', JStr module_2_concept_3_explanation),
             (''example'', JStr module_2_concept_3_example),
             (''analogy'', JStr module_2_concept_3_analogy)]]),
         (''exercises'', JArr [
           JObj [
             (''title'', JStr ''Math Helper Functions''),
             (''description'', JStr module_2_exercise_1_description),
             (''starter_code'', JStr module_2_exercise_1_starter_code),
             (''solution'', JStr module_2_exercise_1_solution),
             (''hints'', JArr [
               JStr ''Use the + operator for addition'',
               JStr ''Use the * operator for multiplication'',
               JStr ''To square a number, multiply it by itself''])]])])]]\<close>

text \<open>\<^verbatim>\<open>GET /api/modules\<close> as registered second: the whole array.\<close>

definition get_modules_static :: "request \<Rightarrow> session \<Rightarrow> database \<Rightarrow> outcome" where
  "get_modules_static req s d = respond (Json 200 (JObj [(''modules'', JArr modules)])) s d"

text \<open>
  \<^verbatim>\<open>parseInt\<close> with one argument: leading white space is skipped, a sign is read, a
  prefix \<^verbatim>\<open>0x\<close> selects radix 16, and the longest run of digits is the value; \<open>None\<close> is
  \<^verbatim>\<open>NaN\<close>.
\<close>

definition is_js_space :: "char \<Rightarrow> bool" where
  "is_js_space c =
     (c \<in> set [CHR '' '', CHR 0x09, CHR 0x0A, CHR 0x0B, CHR 0x0C, CHR 0x0D])"

definition digit_of :: "nat \<Rightarrow> char \<Rightarrow> nat option" where
  "digit_of radix c =
     (let n = (of_char c :: nat);
          v = (if 48 \<le> n \<and> n \<le> 57 then Some (n - 48)
               else if 97 \<le> n \<and> n \<le> 122 then Some (n - 87)
               else if 65 \<le> n \<and> n \<le> 90 then Some (n - 55)
               else None)
      in case v of None \<Rightarrow> None | Some k \<Rightarrow> if k < radix then Some k else None)"

definition parseInt :: "string \<Rightarrow> int option" where
  "parseInt str =
     (let s1 = dropWhile is_js_space str;
          (neg, s2) =
            (case s1 of
               [] \<Rightarrow> (False, [])
             | c # cs \<Rightarrow>
                 if c = CHR ''-'' then (True, cs)
                 else if c = CHR ''+'' then (False, cs)
                 else (False, s1));
          (radix, s3) =
            (case s2 of
               a # b # cs \<Rightarrow>
                 if a = CHR ''0'' \<and> (b = CHR ''x'' \<or> b = CHR ''X'') then (16, cs)
                 else (10, s2)
             | _ \<Rightarrow> (10, s2));
          ds = List.map_filter (digit_of radix)
                 (takeWhile (\<lambda>c. digit_of radix c \<noteq> None) s3)
      in if ds = [] then None
         else Some ((if neg then - 1 else 1) * int (foldl (\<lambda>a k. a * radix + k) 0 ds)))"

text \<open>
  What an identifier denotes where a handler's body is evaluated: nothing (reading it
  throws \<^verbatim>\<open>ReferenceError\<close>), a value that is not an array, or an array of objects.
  \<open>top_level\<close> is the scope of the route handlers of the development server: the
  constants declared at the top of the file. The array \<^verbatim>\<open>modules\<close> is declared inside the
  body of the second \<^verbatim>\<open>GET /api/modules\<close> handler and is not among them.
\<close>

datatype binding = Unbound | Opaque | Array "json list"

definition top_level :: "string \<Rightarrow> binding" where
  "top_level x =
     (if x \<in> set [''express'', ''session'', ''cors'', ''path'', ''sqlite3'', ''bcrypt'',
                   ''fs'', ''app'', ''PORT'', ''db'']
      then Opaque else Unbound)"

definition field :: "string \<Rightarrow> json \<Rightarrow> json option" where
  "field k j = (case j of JObj kvs \<Rightarrow> map_of kvs k | _ \<Rightarrow> None)"

text \<open>\<^verbatim>\<open>m.id === moduleId\<close>, where \<^verbatim>\<open>moduleId\<close> is a number or \<^verbatim>\<open>NaN\<close>.\<close>

fun id_is :: "json option \<Rightarrow> int option \<Rightarrow> bool" where
  "id_is (Some (JNum a)) (Some b) = (a = b)"
| "id_is x y = False"

text \<open>
  \<^verbatim>\<open>GET /api/modules/:id\<close>:
  \<^verbatim>\<open>res.json({ module: modules.find(m => m.id === moduleId) })\<close>. An exception thrown in
  a handler reaches Express's final handler, which answers 500.
\<close>

definition get_module_by_id ::
  "(string \<Rightarrow> binding) \<Rightarrow> string \<Rightarrow> request \<Rightarrow> session \<Rightarrow> database \<Rightarrow> outcome" where
  "get_module_by_id scope id_text req s d =
     (let moduleId = parseInt id_text in
      case scope ''modules'' of
        Unbound \<Rightarrow> respond (Final 500) s d
      | Opaque \<Rightarrow> respond (Final 500) s d
      | Array ms \<Rightarrow>
          respond
            (Json 200 (stringify_obj
               [(''module'', find (\<lambda>m. id_is (field ''id'' m) moduleId) ms)]))
            s d)"

section \<open>Routing\<close>

text \<open>
  Express tries the routes in the order of their registration and runs the first whose
  method and path match; none of the handlers calls \<^verbatim>\<open>next\<close>. Neither server sets
  \<^verbatim>\<open>case sensitive routing\<close> or \<^verbatim>\<open>strict routing\<close>, so a route's path matches without
  regard to the case of ASCII letters and with or without one slash at the end. A path
  is taken as the list of its segments, the pieces between slashes, where the empty piece
  after one final slash is left out: \<^verbatim>\<open>/api/auth/me\<close> and \<^verbatim>\<open>/api/auth/me/\<close> are both
  \<open>[''api'', ''auth'', ''me'']\<close>. The middleware registered before the routes (CORS,
  body parsers, the session, logging, static files) passes a request for an API path on.
\<close>

fun pieces :: "string \<Rightarrow> string \<Rightarrow> string list" where
  "pieces acc [] = [rev acc]"
| "pieces acc (c # cs) =
     (if c = CHR ''/'' then rev acc # pieces [] cs else pieces (c # acc) cs)"

definition segments :: "string \<Rightarrow> string list" where
  "segments url_path =
     (let ps = (case pieces [] url_path of [] # rest \<Rightarrow> rest | other \<Rightarrow> other)
      in if ps \<noteq> [] \<and> last ps = [] then butlast ps else ps)"

definition lower :: "char \<Rightarrow> char" where
  "lower c =
     (case map_of (zip ''ABCDEFGHIJKLMNOPQRSTUVWXYZ'' ''abcdefghijklmnopqrstuvwxyz'') c of
        Some l \<Rightarrow> l
      | None \<Rightarrow> c)"

datatype seg = Lit string | Param

datatype pattern = Segs "seg list" | Star

datatype handler =
  Register | Login | Logout | Me | ModulesDb | ProgressGet | Health | Fallback
| ModulesStatic | ModuleById | ProgressPost

datatype variant = Development | Production

fun seg_matches :: "seg \<Rightarrow> string \<Rightarrow> bool" where
  "seg_matches (Lit l) x = (map lower l = map lower x)"
| "seg_matches Param x = (x \<noteq> [])"

fun matches :: "pattern \<Rightarrow> string list \<Rightarrow> bool" where
  "matches Star p = True"
| "matches (Segs sg) p = list_all2 seg_matches sg p"

fun routes :: "variant \<Rightarrow> (verb \<times> pattern \<times> handler) list" where
  "routes Development =
     [(POST, Segs [Lit ''api'', Lit ''auth'', Lit ''register''], Register),
      (POST, Segs [Lit ''api'', Lit ''auth'', Lit ''login''], Login),
      (POST, Segs [Lit ''api'', Lit ''auth'', Lit ''logout''], Logout),
      (GET, Segs [Lit ''api'', Lit ''auth'', Lit ''me''], Me),
      (GET, Segs [Lit ''api'', Lit ''modules''], ModulesDb),
      (GET, Segs [Lit ''api'', Lit ''progress''], ProgressGet),
      (GET, Segs [Lit ''api'', Lit ''health''], Health),
      (GET, Star, Fallback),
      (GET, Segs [Lit ''api'', Lit ''modules''], ModulesStatic),
      (GET, Segs [Lit ''api'', Lit ''modules'', Param], ModuleById),
      (POST, Segs [Lit ''api'', Lit ''progress''], ProgressPost)]"
| "routes Production =
     [(GET, Segs [Lit ''api'', Lit ''health''], Health),
      (POST, Segs [Lit ''api'', Lit ''auth'', Lit ''register''], Register),
      (POST, Segs [Lit ''api'', Lit ''auth'', Lit ''login''], Login),
      (POST, Segs [Lit ''api'', Lit ''auth'', Lit ''logout''], Logout),
      (GET, Segs [Lit ''api'', Lit ''auth'', Lit ''me''], Me),
      (GET, Star, Fallback)]"

definition dispatch :: "variant \<Rightarrow> verb \<Rightarrow> string list \<Rightarrow> handler option" where
  "dispatch v m p =
     map_option (\<lambda>(m', pat, h). h) (find (\<lambda>(m', pat, h). m' = m \<and> matches pat p) (routes v))"

fun id_param :: "string list \<Rightarrow> string" where
  "id_param [a, b, x] = x"
| "id_param p = []"

fun run_handler ::
  "bcrypt \<Rightarrow> progress_schema \<Rightarrow> handler \<Rightarrow> request \<Rightarrow> session \<Rightarrow> database \<Rightarrow> outcome" where
  "run_handler bc sch Register req s d = auth_register bc req s d"
| "run_handler bc sch Login req s d = auth_login bc req s d"
| "run_handler bc sch Logout req s d = auth_logout req s d"
| "run_handler bc sch Me req s d = auth_me req s d"
| "run_handler bc sch ModulesDb req s d = get_modules_db req s d"
| "run_handler bc sch ProgressGet req s d = get_progress sch req s d"
| "run_handler bc sch Health req s d = get_health req s d"
| "run_handler bc sch Fallback req s d = spa_fallback req s d"
| "run_handler bc sch ModulesStatic req s d = get_modules_static req s d"
| "run_handler bc sch ModuleById req s d =
     get_module_by_id top_level (id_param (req_path req)) req s d"
| "run_handler bc sch ProgressPost req s d = post_progress sch req s d"

section \<open>The session middleware and the server\<close>

text \<open>
  \<^verbatim>\<open>express-session\<close> with its memory store. A request whose cookie names a stored
  session gets that session; any other request gets an empty session under a newly
  generated identifier. After the handler the session is written back, unless it was
  destroyed; with \<^verbatim>\<open>saveUninitialized: false\<close> (production server) a new session that the
  handler left untouched is not stored. The store lives in the memory of the process:
  when a request ends in \<open>Rejection\<close> the process ends, and the state after it is that of
  the next start, the database file as it was and the store empty.
\<close>

record server =
  srv_db :: database
  srv_store :: "string \<Rightarrow> session option"

definition initial_server :: server where
  "initial_server = \<lparr>srv_db = empty_database, srv_store = (\<lambda>c. None)\<rparr>"

definition new_session :: "string \<Rightarrow> session" where
  "new_session i = \<lparr>sessionID = i, userId = None, username = None\<rparr>"

definition load_session :: "(string \<Rightarrow> session option) \<Rightarrow> request \<Rightarrow> session \<times> bool" where
  "load_session st req =
     (case cookie req of
        None \<Rightarrow> (new_session (fresh_id req), True)
      | Some c \<Rightarrow>
          (case st c of
             None \<Rightarrow> (new_session (fresh_id req), True)
           | Some s \<Rightarrow> (s\<lparr>sessionID := c\<rparr>, False)))"

fun save_uninitialized :: "variant \<Rightarrow> bool" where
  "save_uninitialized Development = True"
| "save_uninitialized Production = False"

definition store_session ::
  "variant \<Rightarrow> (string \<Rightarrow> session option) \<Rightarrow> session \<Rightarrow> bool \<Rightarrow> session option \<Rightarrow>
     (string \<Rightarrow> session option)" where
  "store_session v st s0 is_new out =
     (case out of
        None \<Rightarrow> st(sessionID s0 := None)
      | Some s \<Rightarrow>
          if is_new \<and> \<not> save_uninitialized v \<and> s = s0 then st
          else st(sessionID s \<mapsto> s))"

definition served :: "variant \<Rightarrow> bcrypt \<Rightarrow> progress_schema \<Rightarrow> server \<Rightarrow> request \<Rightarrow> outcome" where
  "served v bc sch srv req =
     (let (s0, is_new) = load_session (srv_store srv) req in
      case dispatch v (meth req) (req_path req) of
        None \<Rightarrow> respond (Final 404) s0 (srv_db srv)
      | Some h \<Rightarrow> run_handler bc sch h req s0 (srv_db srv))"

definition serve ::
  "variant \<Rightarrow> bcrypt \<Rightarrow> progress_schema \<Rightarrow> server \<Rightarrow> request \<Rightarrow> reply \<times> server" where
  "serve v bc sch srv req =
     (let (s0, is_new) = load_session (srv_store srv) req;
          out = served v bc sch srv req
      in (reply out,
          \<lparr>srv_db = db out,
           srv_store = (if reply out = Rejection then (\<lambda>c. None)
                        else store_session v (srv_store srv) s0 is_new (sess out))\<rparr>))"

text \<open>A request is authenticated when the session it gets holds a user id.\<close>

definition authenticated :: "server \<Rightarrow> request \<Rightarrow> bool" where
  "authenticated srv req = has_userId (fst (load_session (srv_store srv) req))"

text \<open>What happens to a server: a request arrives, or the store drops a session whose
  24 hours have passed.\<close>

datatype event = Request request | Expire string

fun step :: "variant \<Rightarrow> bcrypt \<Rightarrow> progress_schema \<Rightarrow> server \<Rightarrow> event \<Rightarrow> server" where
  "step v bc sch srv (Request req) = snd (serve v bc sch srv req)"
| "step v bc sch srv (Expire c) = srv\<lparr>srv_store := (srv_store srv)(c := None)\<rparr>"

definition run :: "variant \<Rightarrow> bcrypt \<Rightarrow> progress_schema \<Rightarrow> server \<Rightarrow> event list \<Rightarrow> server" where
  "run v bc sch srv es = foldl (step v bc sch) srv es"

text \<open>The username in the \<^verbatim>\<open>user\<close> object of a reply, if it has one.\<close>

definition reply_username :: "reply \<Rightarrow> string option" where
  "reply_username r =
     (case r of
        Json n b \<Rightarrow>
          (case field ''user'' b of
             Some u \<Rightarrow> (case field ''username'' u of Some (JStr x) \<Rightarrow> Some x | _ \<Rightarrow> None)
           | None \<Rightarrow> None)
      | _ \<Rightarrow> None)"

text \<open>
  The events that end or replace the login held by the session \<open>c\<close>: the store drops
  \<open>c\<close>; a request of any session ends the process; a request of that session logs out,
  logs in with success or registers with success; or a request without a stored session
  is given the identifier \<open>c\<close> anew. \<open>undisturbed\<close> says that a sequence of events, run
  from \<open>srv\<close>, has none of them.
\<close>

fun disturbs :: "variant \<Rightarrow> bcrypt \<Rightarrow> progress_schema \<Rightarrow> string \<Rightarrow> server \<Rightarrow> event \<Rightarrow> bool" where
  "disturbs v bc sch c srv (Expire c') = (c' = c)"
| "disturbs v bc sch c srv (Request r) =
     (reply (served v bc sch srv r) = Rejection \<or>
      (let (s0, is_new) = load_session (srv_store srv) r in
       if is_new then fresh_id r = c
       else sessionID s0 = c \<and>
            (case dispatch v (meth r) (req_path r) of
               Some Logout \<Rightarrow> True
             | Some Login \<Rightarrow> status_of (reply (served v bc sch srv r)) = 200
             | Some Register \<Rightarrow> status_of (reply (served v bc sch srv r)) = 200
             | _ \<Rightarrow> False)))"

fun undisturbed ::
  "variant \<Rightarrow> bcrypt \<Rightarrow> progress_schema \<Rightarrow> string \<Rightarrow> server \<Rightarrow> event list \<Rightarrow> bool" where
  "undisturbed v bc sch c srv [] = True"
| "undisturbed v bc sch c srv (e # es) =
     (\<not> disturbs v bc sch c srv e \<and> undisturbed v bc sch c (step v bc sch srv e) es)"

section \<open>The module list as the specification words it\<close>

text \<open>
  Section 4.2 of the specification: ListModules returns the fixed ordered collection of
  modules, metadata only (id, title, description, difficulty, estimated time, ordering).
  \<open>spec_ListModules\<close> follows these words; it is compared with the handlers below.
\<close>

definition metadata_fields :: "string list" where
  "metadata_fields =
     [''id'', ''title'', ''description'', ''difficulty'', ''estimated_time'', ''order_index'']"

definition object_keys :: "json \<Rightarrow> string list" where
  "object_keys j = (case j of JObj kvs \<Rightarrow> map fst kvs | _ \<Rightarrow> [])"

definition only_metadata :: "json \<Rightarrow> bool" where
  "only_metadata j = list_all (\<lambda>k. k \<in> set metadata_fields) (object_keys j)"

definition summary :: "json \<Rightarrow> json" where
  "summary j =
     (case j of
        JObj kvs \<Rightarrow> JObj (filter (\<lambda>(k, x). k \<in> set metadata_fields) kvs)
      | _ \<Rightarrow> j)"

definition spec_ListModules :: reply where
  "spec_ListModules = Json 200 (JObj [(''modules'', JArr (map summary modules))])"

section \<open>Concrete inputs\<close>

text \<open>
  A stand-in for \<^verbatim>\<open>bcryptjs\<close> and some requests, for evaluating the handlers on concrete
  inputs. The general results below hold for every pair of functions in place of
  \<open>example_bcrypt\<close>.
\<close>

definition example_bcrypt :: bcrypt where
  "example_bcrypt =
     \<lparr>bcrypt_hash = (\<lambda>p. ''$2a$10$'' @ p),
      bcrypt_compare = (\<lambda>p h. h = ''$2a$10$'' @ p)\<rparr>"

definition blank_request :: request where
  "blank_request =
     \<lparr>meth = GET, req_path = [], cookie = None, fresh_id = ''sid-0'', regen_id = ''sid-r'',
      now = 0, b_username = [], b_email = [], b_password = NotText False False,
      b_moduleId = None,
      b_completed = None, b_score = None, b_timeSpent = None\<rparr>"

definition register_alice :: request where
  "register_alice =
     blank_request\<lparr>meth := POST, req_path := [''api'', ''auth'', ''register''],
       fresh_id := ''sid-1'', b_username := ''alice'', b_email := ''a@example.com'',
       b_password := Text ''secret1''\<rparr>"

definition register_mallory :: request where
  "register_mallory =
     blank_request\<lparr>meth := POST, req_path := [''api'', ''auth'', ''register''],
       fresh_id := ''sid-2'', b_username := ''mallory'', b_email := ''m@example.com'',
       b_password := Text ''hunter22''\<rparr>"

definition login_alice :: "string \<Rightarrow> request" where
  "login_alice c =
     blank_request\<lparr>meth := POST, req_path := [''api'', ''auth'', ''login''],
       cookie := Some c, fresh_id := ''sid-3'', b_username := ''alice'',
       b_password := Text ''secret1''\<rparr>"

definition logout_of :: "string \<Rightarrow> request" where
  "logout_of c =
     blank_request\<lparr>meth := POST, req_path := [''api'', ''auth'', ''logout''],
       cookie := Some c, fresh_id := ''sid-4''\<rparr>"

definition current_user :: "string \<Rightarrow> request" where
  "current_user c =
     blank_request\<lparr>meth := GET, req_path := [''api'', ''auth'', ''me''],
       cookie := Some c, fresh_id := ''sid-5''\<rparr>"

text \<open>The body that the front end's \<^verbatim>\<open>completeModule(1)\<close> posts.\<close>

definition complete_module_1 :: "string \<Rightarrow> request" where
  "complete_module_1 c =
     blank_request\<lparr>meth := POST, req_path := [''api'', ''progress''], cookie := Some c,
       fresh_id := ''sid-6'', b_moduleId := Some 1, b_completed := Some True,
       b_score := Some 100, b_timeSpent := Some 30\<rparr>"

definition load_progress :: "string \<Rightarrow> request" where
  "load_progress c =
     blank_request\<lparr>meth := GET, req_path := [''api'', ''progress''], cookie := Some c,
       fresh_id := ''sid-7''\<rparr>"

definition list_modules :: request where
  "list_modules =
     blank_request\<lparr>meth := GET, req_path := [''api'', ''modules''], fresh_id := ''sid-8''\<rparr>"

section \<open>Registration\<close>

lemma str_includes_take: "take (length sub) xs = sub \<Longrightarrow> str_includes xs sub"
  by (cases xs) auto

lemma str_includes_prefix: "str_includes (sub @ post) sub"
  by (rule str_includes_take) simp

lemma str_includes_append: "str_includes (pre @ sub @ post) sub"
  by (induction pre) (simp_all add: str_includes_prefix)

lemma unique_message: "str_includes (message (UniqueFailed col)) ''UNIQUE constraint failed''"
  using str_includes_append [of "''SQLITE_CONSTRAINT: ''" "''UNIQUE constraint failed''" "'': '' @ col"]
  by simp

lemma insert_user_taken:
  "list_ex (\<lambda>u. u_username u = name) (users d) \<Longrightarrow>
     insert_user d t name mail h = Inl (UniqueFailed ''users.username'')"
  by (simp add: insert_user_def)

text \<open>
  Claim C3. When the username of a registration request is already in the users table, and
  the request is otherwise valid (username and email present, password a string of at
  least six characters), the handler answers 400 with the message \<^verbatim>\<open>Username or email already
  exists\<close>, which is not the generic 500 \<^verbatim>\<open>Database error\<close>, and leaves the session and
  the database, hence the users table, as they were.
\<close>

theorem register_existing_username_conflict:
  assumes "b_username req \<in> set (map u_username (users d))"
    and "b_username req \<noteq> []" and "b_email req \<noteq> []"
    and "b_password req = Text pw" and "6 \<le> length pw"
  shows "auth_register bc req s d =
           respond (Json 400 (error_body ''Username or email already exists'')) s d
         \<and> db (auth_register bc req s d) = d
         \<and> status_of (reply (auth_register bc req s d)) = 400
         \<and> reply (auth_register bc req s d) \<noteq> Json 500 (error_body ''Database error'')"
proof -
  from assms(1) have ex: "list_ex (\<lambda>u. u_username u = b_username req) (users d)"
    by (auto simp: list_ex_iff)
  from assms(4,5) have pw: "\<not> falsy (b_password req)" "\<not> length_below_6 (b_password req)"
    by auto
  have "auth_register bc req s d =
          respond (Json 400 (error_body ''Username or email already exists'')) s d"
    using assms(2,3,4) pw
    by (simp add: auth_register_def insert_user_taken [OF ex] unique_message del: message.simps)
  then show ?thesis
    by (simp add: respond_def error_body_def)
qed

text \<open>
  On the empty database the first registration of alice succeeds with id 1, and a second
  one under the same username, with another email, is the conflict above.
\<close>

theorem register_existing_username_conflict_witness:
  "b_username (register_alice\<lparr>b_email := ''other@example.com''\<rparr>)
     \<in> set (map u_username (users (db (auth_register example_bcrypt register_alice
          (new_session ''sid-1'') empty_database))))
   \<and> reply (auth_register example_bcrypt register_alice (new_session ''sid-1'') empty_database)
       = Json 200 (JObj [(''message'', JStr ''Registration successful!''),
                         (''user'', user_json 1 ''alice'' ''a@example.com'')])
   \<and> reply (auth_register example_bcrypt (register_alice\<lparr>b_email := ''other@example.com''\<rparr>)
         (new_session ''sid-2'')
         (db (auth_register example_bcrypt register_alice (new_session ''sid-1'') empty_database)))
       = Json 400 (error_body ''Username or email already exists'')
   \<and> users (db (auth_register example_bcrypt (register_alice\<lparr>b_email := ''other@example.com''\<rparr>)
         (new_session ''sid-2'')
         (db (auth_register example_bcrypt register_alice (new_session ''sid-1'') empty_database))))
       = users (db (auth_register example_bcrypt register_alice (new_session ''sid-1'')
           empty_database))"
proof -
  let ?d1 = "db (auth_register example_bcrypt register_alice (new_session ''sid-1'') empty_database)"
  let ?r2 = "register_alice\<lparr>b_email := ''other@example.com''\<rparr>"
  have first: "auth_register example_bcrypt register_alice (new_session ''sid-1'') empty_database =
      respond (Json 200 (JObj [(''message'', JStr ''Registration successful!''),
                         (''user'', user_json 1 ''alice'' ''a@example.com'')]))
        ((new_session ''sid-1'')\<lparr>userId := Some 1, username := Some ''alice''\<rparr>)
        (empty_database\<lparr>users := [\<lparr>u_id = 1, u_username = ''alice'', u_email = ''a@example.com'',
            u_password_hash = ''$2a$10$secret1'', u_created_at = 0\<rparr>], users_seq := 1\<rparr>)"
    by (simp add: auth_register_def register_alice_def blank_request_def example_bcrypt_def
        insert_user_def empty_database_def)
  have d1: "map u_username (users ?d1) = [''alice'']"
    by (simp add: first respond_def)
  have h1: "b_username ?r2 \<in> set (map u_username (users ?d1))"
    unfolding d1 by (simp add: register_alice_def blank_request_def)
  have h2: "b_username ?r2 \<noteq> []" "b_email ?r2 \<noteq> []" "b_password ?r2 = Text ''secret1''"
    "6 \<le> length ''secret1''"
    by (simp_all add: register_alice_def blank_request_def)
  from register_existing_username_conflict [OF h1 h2, of example_bcrypt "new_session ''sid-2''"]
  show ?thesis using h1
    by (simp add: first respond_def)
qed

section \<open>Requests without a login\<close>

lemmas example_defs = register_alice_def register_mallory_def login_alice_def logout_of_def
  current_user_def complete_module_1_def load_progress_def list_modules_def blank_request_def
  example_bcrypt_def

lemmas server_defs = serve_def served_def run_def dispatch_def load_session_def
  store_session_def new_session_def initial_server_def empty_database_def respond_def

lemma auth_me_unauthenticated:
  "\<not> has_userId s \<Longrightarrow> auth_me req s d = respond (Json 401 (error_body ''Not authenticated'')) s d"
  by (simp add: auth_me_def)

lemma get_progress_unauthenticated:
  "\<not> has_userId s \<Longrightarrow>
     get_progress sch req s d = respond (Json 401 (error_body ''Not authenticated'')) s d"
  by (simp add: get_progress_def has_userId_def split: option.splits)

lemma post_progress_unauthenticated:
  "\<not> has_userId s \<Longrightarrow>
     post_progress sch req s d = respond (Json 401 (error_body ''Not authenticated'')) s d"
  by (simp add: post_progress_def has_userId_def split: option.splits)

lemma dispatch_me: "dispatch v GET [''api'', ''auth'', ''me''] = Some Me"
  by (cases v) (simp_all add: dispatch_def)

lemma dispatch_get_progress: "dispatch Development GET [''api'', ''progress''] = Some ProgressGet"
  by (simp add: dispatch_def)

lemma dispatch_post_progress: "dispatch Development POST [''api'', ''progress''] = Some ProgressPost"
  by (simp add: dispatch_def)

lemma serve_via:
  assumes "dispatch v (meth req) (req_path req) = Some h"
    and "load_session (srv_store srv) req = (s0, is_new)"
  shows "serve v bc sch srv req =
           (reply (run_handler bc sch h req s0 (srv_db srv)),
            \<lparr>srv_db = db (run_handler bc sch h req s0 (srv_db srv)),
             srv_store =
               (if reply (run_handler bc sch h req s0 (srv_db srv)) = Rejection
                then (\<lambda>c. None)
                else store_session v (srv_store srv) s0 is_new
                       (sess (run_handler bc sch h req s0 (srv_db srv))))\<rparr>)"
  using assms by (simp add: serve_def served_def Let_def)

text \<open>
  Claim C5. A request of the development server whose session holds no user id (no
  cookie, a cookie that names no stored session, or a session nobody logged in to) and
  that asks for the current user, reads the progress or saves progress is answered with
  401 and the body \<^verbatim>\<open>{"error": "Not authenticated"}\<close>, which carries no user data, and
  the database after the request is the database before it.
\<close>

theorem unauthenticated_requests_rejected:
  assumes "\<not> authenticated srv req"
    and "(meth req, req_path req) \<in>
           {(GET, [''api'', ''auth'', ''me'']), (GET, [''api'', ''progress'']),
            (POST, [''api'', ''progress''])}"
  shows "fst (serve Development bc sch srv req) = Json 401 (error_body ''Not authenticated'')
         \<and> srv_db (snd (serve Development bc sch srv req)) = srv_db srv"
proof -
  obtain s0 is_new where ld: "load_session (srv_store srv) req = (s0, is_new)"
    by (cases "load_session (srv_store srv) req")
  with assms(1) have no: "\<not> has_userId s0"
    by (simp add: authenticated_def)
  from assms(2) consider
      (me) "meth req = GET" "req_path req = [''api'', ''auth'', ''me'']"
    | (get) "meth req = GET" "req_path req = [''api'', ''progress'']"
    | (post) "meth req = POST" "req_path req = [''api'', ''progress'']"
    by auto
  then show ?thesis
  proof cases
    case me
    then have "dispatch Development (meth req) (req_path req) = Some Me"
      by (simp add: dispatch_me)
    from serve_via [OF this ld] show ?thesis
      by (simp add: auth_me_unauthenticated [OF no] respond_def)
  next
    case get
    then have "dispatch Development (meth req) (req_path req) = Some ProgressGet"
      by (simp add: dispatch_get_progress)
    from serve_via [OF this ld] show ?thesis
      by (simp add: get_progress_unauthenticated [OF no] respond_def)
  next
    case post
    then have "dispatch Development (meth req) (req_path req) = Some ProgressPost"
      by (simp add: dispatch_post_progress)
    from serve_via [OF this ld] show ?thesis
      by (simp add: post_progress_unauthenticated [OF no] respond_def)
  qed
qed

lemma after_register_alice:
  "run v example_bcrypt sch initial_server [Request register_alice] =
     \<lparr>srv_db = \<lparr>users = [\<lparr>u_id = 1, u_username = ''alice'', u_email = ''a@example.com'',
                            u_password_hash = ''$2a$10$secret1'', u_created_at = 0\<rparr>],
                 users_seq = 1, user_progress = [], user_progress_seq = 0, modules_table = []\<rparr>,
      srv_store = (\<lambda>c. None)(''sid-1'' \<mapsto>
                    \<lparr>sessionID = ''sid-1'', userId = Some 1, username = Some ''alice''\<rparr>)\<rparr>"
  by (cases v) (simp_all add: server_defs example_defs auth_register_def insert_user_def)

text \<open>
  A save request without a cookie, against the table that has all the columns: the reply
  is 401 and the progress table stays empty.
\<close>

theorem unauthenticated_requests_rejected_witness:
  "\<not> authenticated (run Development example_bcrypt schema_railway initial_server
         [Request register_alice])
       ((complete_module_1 ''sid-1'')\<lparr>cookie := None\<rparr>)
   \<and> fst (serve Development example_bcrypt schema_railway
         (run Development example_bcrypt schema_railway initial_server [Request register_alice])
         ((complete_module_1 ''sid-1'')\<lparr>cookie := None\<rparr>))
       = Json 401 (error_body ''Not authenticated'')
   \<and> user_progress (srv_db (snd (serve Development example_bcrypt schema_railway
         (run Development example_bcrypt schema_railway initial_server [Request register_alice])
         ((complete_module_1 ''sid-1'')\<lparr>cookie := None\<rparr>)))) = []"
proof -
  let ?srv = "run Development example_bcrypt schema_railway initial_server [Request register_alice]"
  let ?req = "(complete_module_1 ''sid-1'')\<lparr>cookie := None\<rparr>"
  have h1: "\<not> authenticated ?srv ?req"
    by (simp add: authenticated_def load_session_def new_session_def has_userId_def
        complete_module_1_def blank_request_def)
  have h2: "(meth ?req, req_path ?req) \<in>
           {(GET, [''api'', ''auth'', ''me'']), (GET, [''api'', ''progress'']),
            (POST, [''api'', ''progress''])}"
    by (simp add: complete_module_1_def blank_request_def)
  from unauthenticated_requests_rejected [OF h1 h2, of example_bcrypt schema_railway] h1
  show ?thesis
    by (simp add: after_register_alice)
qed

section \<open>Reading progress\<close>

lemma run_handler_modules_table:
  "modules_table (db (run_handler bc sch h req s d)) = modules_table d"
  by (cases h)
     (auto simp: auth_register_def auth_login_def auth_logout_def auth_me_def get_modules_db_def
        get_progress_def get_health_def spa_fallback_def get_modules_static_def
        get_module_by_id_def post_progress_def respond_def insert_user_def
        insert_or_replace_progress_def Let_def
      split: option.splits sum.splits if_splits binding.splits password.splits)

lemma serve_modules_table:
  "modules_table (srv_db (snd (serve v bc sch srv req))) = modules_table (srv_db srv)"
  by (simp add: serve_def served_def Let_def run_handler_modules_table respond_def
      split: prod.splits option.splits)

lemma step_modules_table:
  "modules_table (srv_db (step v bc sch srv e)) = modules_table (srv_db srv)"
  by (cases e) (simp_all add: serve_modules_table)

lemma run_modules_table:
  "modules_table (srv_db (run v bc sch srv es)) = modules_table (srv_db srv)"
  unfolding run_def by (induction es arbitrary: srv) (simp_all add: step_modules_table)

lemma select_progress_no_modules:
  "modules_table d = [] \<Longrightarrow> select_progress d uid = []"
  by (simp add: select_progress_def)

text \<open>
  Claim C10. In the development server, after any sequence of requests and session
  expiries from the empty database, an authenticated \<^verbatim>\<open>GET /api/progress\<close> is answered
  with the empty progress list: no route writes to the modules table, and the query joins
  the progress rows with it.
\<close>

theorem progress_list_always_empty:
  assumes "authenticated (run Development bc sch initial_server es) req"
    and "meth req = GET" and "req_path req = [''api'', ''progress'']"
  shows "fst (serve Development bc sch (run Development bc sch initial_server es) req) =
           Json 200 (JObj [(''progress'', JArr [])])"
proof -
  let ?srv = "run Development bc sch initial_server es"
  obtain s0 is_new where ld: "load_session (srv_store ?srv) req = (s0, is_new)"
    by (cases "load_session (srv_store ?srv) req")
  with assms(1) have yes: "has_userId s0"
    by (simp add: authenticated_def)
  have "modules_table (srv_db ?srv) = []"
    by (simp add: run_modules_table initial_server_def empty_database_def)
  then have none: "select_progress (srv_db ?srv) uid = []" for uid
    by (rule select_progress_no_modules)
  from assms(2,3) have "dispatch Development (meth req) (req_path req) = Some ProgressGet"
    by (simp add: dispatch_get_progress)
  from serve_via [OF this ld] yes show ?thesis
    by (simp add: get_progress_def has_userId_def none respond_def split: option.splits)
qed

lemma run_two:
  "run v bc sch srv [e1, e2] = step v bc sch (run v bc sch srv [e1]) e2"
  by (simp add: run_def)

lemma save_after_register_alice:
  "serve Development example_bcrypt schema_railway
     (run Development example_bcrypt schema_railway initial_server [Request register_alice])
     (complete_module_1 ''sid-1'') =
   (Json 200 (JObj [(''message'', JStr ''Progress saved successfully'')]),
    \<lparr>srv_db = \<lparr>users = [\<lparr>u_id = 1, u_username = ''alice'', u_email = ''a@example.com'',
                            u_password_hash = ''$2a$10$secret1'', u_created_at = 0\<rparr>],
                 users_seq = 1,
                 user_progress = [\<lparr>p_id = 1, p_user_id = 1, p_module_id = 1,
                    p_completed = Some True, p_score = Some 100, p_time_spent = Some 30,
                    p_last_accessed = 0\<rparr>],
                 user_progress_seq = 1, modules_table = []\<rparr>,
      srv_store = (\<lambda>c. None)(''sid-1'' \<mapsto>
                    \<lparr>sessionID = ''sid-1'', userId = Some 1, username = Some ''alice''\<rparr>)\<rparr>)"
  unfolding after_register_alice
  by (simp add: server_defs complete_module_1_def blank_request_def post_progress_def
      insert_or_replace_progress_def schema_railway_def)

text \<open>
  With the table that has all the columns, alice registers and saves module 1 with
  success; the row is in the table, and her own progress list is empty all the same.
\<close>

theorem progress_list_always_empty_witness:
  "authenticated
     (run Development example_bcrypt schema_railway initial_server
        [Request register_alice, Request (complete_module_1 ''sid-1'')])
     (load_progress ''sid-1'')
   \<and> fst (serve Development example_bcrypt schema_railway
         (run Development example_bcrypt schema_railway initial_server [Request register_alice])
         (complete_module_1 ''sid-1''))
       = Json 200 (JObj [(''message'', JStr ''Progress saved successfully'')])
   \<and> user_progress (srv_db
          (run Development example_bcrypt schema_railway initial_server
             [Request register_alice, Request (complete_module_1 ''sid-1'')]))
       = [\<lparr>p_id = 1, p_user_id = 1, p_module_id = 1, p_completed = Some True,
           p_score = Some 100, p_time_spent = Some 30, p_last_accessed = 0\<rparr>]
   \<and> fst (serve Development example_bcrypt schema_railway
         (run Development example_bcrypt schema_railway initial_server
            [Request register_alice, Request (complete_module_1 ''sid-1'')])
         (load_progress ''sid-1''))
       = Json 200 (JObj [(''progress'', JArr [])])"
proof -
  let ?es = "[Request register_alice, Request (complete_module_1 ''sid-1'')]"
  let ?srv = "run Development example_bcrypt schema_railway initial_server ?es"
  have srv: "?srv = snd (serve Development example_bcrypt schema_railway
         (run Development example_bcrypt schema_railway initial_server [Request register_alice])
         (complete_module_1 ''sid-1''))"
    by (simp only: run_two step.simps)
  have h1: "authenticated ?srv (load_progress ''sid-1'')"
    unfolding srv save_after_register_alice
    by (simp add: authenticated_def load_session_def has_userId_def load_progress_def
        blank_request_def)
  have h2: "meth (load_progress ''sid-1'') = GET"
    "req_path (load_progress ''sid-1'') = [''api'', ''progress'']"
    by (simp_all add: load_progress_def blank_request_def)
  have rows: "user_progress (srv_db ?srv)
       = [\<lparr>p_id = 1, p_user_id = 1, p_module_id = 1, p_completed = Some True,
           p_score = Some 100, p_time_spent = Some 30, p_last_accessed = 0\<rparr>]"
    unfolding srv save_after_register_alice by simp
  from progress_list_always_empty [OF h1 h2] h1 rows
  show ?thesis
    by (simp add: save_after_register_alice)
qed

section \<open>Login\<close>

text \<open>
  Claim C2, amended. A login with the username of a stored user and a password that is a
  string, not empty, and that \<^verbatim>\<open>bcrypt.compare\<close> rejects, and a login with a username,
  not empty, that no stored user has, and any truthy password, get the same outcome:
  status 401, the message \<^verbatim>\<open>Invalid username or password\<close>, session and database
  untouched. A login whose username is missing or empty, or whose password is missing,
  empty or falsy in another way, is answered 400 \<^verbatim>\<open>Username and password are required\<close>,
  whatever the users table holds. Both hold for the login handler of the development and
  production servers and for the one of the Railway server.
\<close>

theorem login_wrong_password_like_unknown_user:
  "(b_username r1 \<noteq> [] \<and> b_password r1 = Text p1 \<and> p1 \<noteq> []
      \<and> select_user d (b_username r1) = Some u
      \<and> \<not> bcrypt_compare bc p1 (u_password_hash u)
      \<and> b_username r2 \<noteq> [] \<and> \<not> falsy (b_password r2)
      \<and> select_user d (b_username r2) = None
    \<longrightarrow> auth_login bc r1 s d =
           respond (Json 401 (error_body ''Invalid username or password'')) s d
       \<and> auth_login bc r2 s d =
           respond (Json 401 (error_body ''Invalid username or password'')) s d
       \<and> auth_login_railway bc r1 s d =
           respond (Json 401 (error_body ''Invalid username or password'')) s d
       \<and> auth_login_railway bc r2 s d =
           respond (Json 401 (error_body ''Invalid username or password'')) s d)
   \<and> (b_username r3 = [] \<or> falsy (b_password r3)
    \<longrightarrow> auth_login bc r3 s d =
           respond (Json 400 (error_body ''Username and password are required'')) s d
       \<and> auth_login_railway bc r3 s d =
           respond (Json 400 (error_body ''Username and password are required'')) s d)"
proof (intro conjI impI)
  assume a: "b_username r1 \<noteq> [] \<and> b_password r1 = Text p1 \<and> p1 \<noteq> []
      \<and> select_user d (b_username r1) = Some u
      \<and> \<not> bcrypt_compare bc p1 (u_password_hash u)
      \<and> b_username r2 \<noteq> [] \<and> \<not> falsy (b_password r2)
      \<and> select_user d (b_username r2) = None"
  then show "auth_login bc r1 s d =
           respond (Json 401 (error_body ''Invalid username or password'')) s d"
    by (simp add: auth_login_def)
  from a show "auth_login bc r2 s d =
           respond (Json 401 (error_body ''Invalid username or password'')) s d"
    by (simp add: auth_login_def)
  from a show "auth_login_railway bc r1 s d =
           respond (Json 401 (error_body ''Invalid username or password'')) s d"
    by (simp add: auth_login_railway_def)
  from a show "auth_login_railway bc r2 s d =
           respond (Json 401 (error_body ''Invalid username or password'')) s d"
    by (simp add: auth_login_railway_def)
next
  assume b: "b_username r3 = [] \<or> falsy (b_password r3)"
  then show "auth_login bc r3 s d =
           respond (Json 400 (error_body ''Username and password are required'')) s d"
    by (auto simp: auth_login_def)
  from b show "auth_login_railway bc r3 s d =
           respond (Json 400 (error_body ''Username and password are required'')) s d"
    by (auto simp: auth_login_railway_def)
qed

lemma db_after_register_alice:
  "srv_db (run v example_bcrypt sch initial_server [Request register_alice]) =
     \<lparr>users = [\<lparr>u_id = 1, u_username = ''alice'', u_email = ''a@example.com'',
                 u_password_hash = ''$2a$10$secret1'', u_created_at = 0\<rparr>],
      users_seq = 1, user_progress = [], user_progress_seq = 0, modules_table = []\<rparr>"
  by (simp add: after_register_alice)

text \<open>With alice registered: her name with the password \<^verbatim>\<open>wrong\<close>, the name
  \<^verbatim>\<open>nobody\<close> with the number 12345 for a password, and her name with no password.\<close>

theorem login_wrong_password_like_unknown_user_witness:
  "select_user (srv_db (run Production example_bcrypt schema_development initial_server
       [Request register_alice])) ''alice''
     = Some \<lparr>u_id = 1, u_username = ''alice'', u_email = ''a@example.com'',
             u_password_hash = ''$2a$10$secret1'', u_created_at = 0\<rparr>
   \<and> \<not> bcrypt_compare example_bcrypt ''wrong'' ''$2a$10$secret1''
   \<and> select_user (srv_db (run Production example_bcrypt schema_development initial_server
       [Request register_alice])) ''nobody'' = None
   \<and> reply (auth_login example_bcrypt ((login_alice ''sid-9'')\<lparr>b_password := Text ''wrong''\<rparr>)
        (new_session ''sid-9'')
        (srv_db (run Production example_bcrypt schema_development initial_server
           [Request register_alice])))
      = Json 401 (error_body ''Invalid username or password'')
   \<and> reply (auth_login example_bcrypt
        ((login_alice ''sid-9'')\<lparr>b_username := ''nobody'', b_password := NotText True False\<rparr>)
        (new_session ''sid-9'')
        (srv_db (run Production example_bcrypt schema_development initial_server
           [Request register_alice])))
      = Json 401 (error_body ''Invalid username or password'')
   \<and> falsy (b_password ((login_alice ''sid-9'')\<lparr>b_password := NotText False False\<rparr>))
   \<and> reply (auth_login example_bcrypt
        ((login_alice ''sid-9'')\<lparr>b_password := NotText False False\<rparr>)
        (new_session ''sid-9'')
        (srv_db (run Production example_bcrypt schema_development initial_server
           [Request register_alice])))
      = Json 400 (error_body ''Username and password are required'')"
proof -
  let ?d = "srv_db (run Production example_bcrypt schema_development initial_server
       [Request register_alice])"
  let ?u = "\<lparr>u_id = 1, u_username = ''alice'', u_email = ''a@example.com'',
             u_password_hash = ''$2a$10$secret1'', u_created_at = 0\<rparr>"
  let ?r1 = "(login_alice ''sid-9'')\<lparr>b_password := Text ''wrong''\<rparr>"
  let ?r2 = "(login_alice ''sid-9'')\<lparr>b_username := ''nobody'', b_password := NotText True False\<rparr>"
  let ?r3 = "(login_alice ''sid-9'')\<lparr>b_password := NotText False False\<rparr>"
  have r1: "b_username ?r1 \<noteq> []" "b_password ?r1 = Text ''wrong''" "''wrong'' \<noteq> []"
    by (simp_all add: login_alice_def blank_request_def)
  have r2: "b_username ?r2 \<noteq> []" "\<not> falsy (b_password ?r2)"
    by (simp_all add: login_alice_def blank_request_def)
  have r3: "b_username ?r3 = [] \<or> falsy (b_password ?r3)"
    by (simp add: login_alice_def blank_request_def)
  have u: "select_user ?d (b_username ?r1) = Some ?u"
    by (simp add: db_after_register_alice select_user_def login_alice_def blank_request_def)
  have bad: "\<not> bcrypt_compare example_bcrypt ''wrong'' (u_password_hash ?u)"
    by (simp add: example_bcrypt_def)
  have nobody: "select_user ?d (b_username ?r2) = None"
    by (simp add: db_after_register_alice select_user_def login_alice_def blank_request_def)
  have a: "auth_login example_bcrypt ?r1 (new_session ''sid-9'') ?d =
           respond (Json 401 (error_body ''Invalid username or password''))
             (new_session ''sid-9'') ?d"
    and b: "auth_login example_bcrypt ?r2 (new_session ''sid-9'') ?d =
           respond (Json 401 (error_body ''Invalid username or password''))
             (new_session ''sid-9'') ?d"
    and c: "auth_login example_bcrypt ?r3 (new_session ''sid-9'') ?d =
           respond (Json 400 (error_body ''Username and password are required''))
             (new_session ''sid-9'') ?d"
    using login_wrong_password_like_unknown_user
      [of ?r1 "''wrong''" ?d ?u example_bcrypt ?r2 "new_session ''sid-9''" ?r3]
      r1 r2 r3 u bad nobody
    by blast+
  have u': "select_user ?d ''alice'' = Some ?u"
    using u by (simp add: login_alice_def blank_request_def)
  have nobody': "select_user ?d ''nobody'' = None"
    using nobody by (simp add: login_alice_def blank_request_def)
  have bad': "\<not> bcrypt_compare example_bcrypt ''wrong'' ''$2a$10$secret1''"
    using bad by simp
  have f: "falsy (b_password ?r3)"
    by (simp add: login_alice_def blank_request_def)
  show ?thesis
    unfolding a b c using u' nobody' bad' f by (simp add: respond_def)
qed

text \<open>
  Claim C2 as it is stated fails for the empty password: it does not match alice's hash,
  and the reply is 400 \<^verbatim>\<open>Username and password are required\<close>, not 401.
\<close>

theorem login_empty_password_counterexample:
  "select_user (srv_db (run Production example_bcrypt schema_development initial_server
       [Request register_alice])) ''alice''
     = Some \<lparr>u_id = 1, u_username = ''alice'', u_email = ''a@example.com'',
             u_password_hash = ''$2a$10$secret1'', u_created_at = 0\<rparr>
   \<and> \<not> bcrypt_compare example_bcrypt [] ''$2a$10$secret1''
   \<and> reply (auth_login example_bcrypt ((login_alice ''sid-9'')\<lparr>b_password := Text []\<rparr>)
        (new_session ''sid-9'')
        (srv_db (run Production example_bcrypt schema_development initial_server
           [Request register_alice])))
      = Json 400 (error_body ''Username and password are required'')
   \<and> status_of (reply (auth_login example_bcrypt
        ((login_alice ''sid-9'')\<lparr>b_password := Text []\<rparr>)
        (new_session ''sid-9'')
        (srv_db (run Production example_bcrypt schema_development initial_server
           [Request register_alice])))) \<noteq> 401"
  unfolding db_after_register_alice
  by (simp add: select_user_def example_bcrypt_def auth_login_def login_alice_def
      blank_request_def respond_def)

text \<open>
  Outside the amended claim: with the username of a stored user and a truthy password
  that is not a string, the comparison rejects and the request is never answered, while
  the same password under an unknown username is answered 401.
\<close>

lemma login_rejection_on_stored_username:
  assumes "b_username r \<noteq> []" and "b_password r = NotText True short"
    and "select_user d (b_username r) = Some u"
  shows "reply (auth_login bc r s d) = Rejection"
    and "reply (auth_login_railway bc r s d) = Rejection"
  using assms by (simp_all add: auth_login_def auth_login_railway_def respond_def)

section \<open>Saving progress\<close>

text \<open>
  Against the table of the Railway server, two saves of one user for one module leave one
  row for the pair, with the values of the second save.
\<close>

lemma upsert_with_railway_schema:
  assumes "userId s = Some uid" and "uid \<noteq> 0"
    and "b_moduleId r1 = Some m" and "b_moduleId r2 = Some m"
  shows "filter (\<lambda>r. p_user_id r = uid \<and> p_module_id r = m)
           (user_progress (db (post_progress schema_railway r2 s
              (db (post_progress schema_railway r1 s d))))) =
         [\<lparr>p_id = user_progress_seq d + 2, p_user_id = uid, p_module_id = m,
           p_completed = b_completed r2, p_score = b_score r2,
           p_time_spent = b_timeSpent r2, p_last_accessed = now r2\<rparr>]"
  using assms
  by (simp add: post_progress_def insert_or_replace_progress_def schema_railway_def
      respond_def Let_def)

text \<open>With the columns but without the uniqueness constraint, nothing collides and the
  second save adds a second row for the pair.\<close>

lemma append_without_unique_constraint:
  assumes "userId s = Some uid" and "uid \<noteq> 0"
    and "b_moduleId r1 = Some m" and "b_moduleId r2 = Some m"
  shows "length (filter (\<lambda>r. p_user_id r = uid \<and> p_module_id r = m)
           (user_progress (db (post_progress
              \<lparr>has_score_columns = True, unique_user_module = False\<rparr> r2 s
              (db (post_progress \<lparr>has_score_columns = True, unique_user_module = False\<rparr>
                     r1 s d))))))
         = length (filter (\<lambda>r. p_user_id r = uid \<and> p_module_id r = m) (user_progress d)) + 2"
  using assms
  by (simp add: post_progress_def insert_or_replace_progress_def respond_def Let_def)

text \<open>Against the table that the development server creates, the statement names columns
  that do not exist, and every authenticated save is answered with 500.\<close>

lemma post_progress_development_schema:
  "has_userId s \<Longrightarrow>
     post_progress schema_development req s d =
       respond (Json 500 (error_body ''Database error'')) s d"
  by (simp add: post_progress_def insert_or_replace_progress_def schema_development_def
      has_userId_def split: option.splits)

text \<open>
  Claim C1, on the development server with the table it creates: alice registers and
  saves module 1 twice. Both saves are answered 500 \<^verbatim>\<open>Database error\<close> and the progress
  table holds no row for her and module 1, where the claim expects exactly one.
\<close>

theorem save_progress_fails_on_development_table:
  "fst (serve Development example_bcrypt schema_development
          (run Development example_bcrypt schema_development initial_server
             [Request register_alice])
          (complete_module_1 ''sid-1''))
     = Json 500 (error_body ''Database error'')
   \<and> fst (serve Development example_bcrypt schema_development
          (run Development example_bcrypt schema_development initial_server
             [Request register_alice, Request (complete_module_1 ''sid-1'')])
          (complete_module_1 ''sid-1''))
     = Json 500 (error_body ''Database error'')
   \<and> user_progress (srv_db
        (run Development example_bcrypt schema_development initial_server
           [Request register_alice, Request (complete_module_1 ''sid-1''),
            Request (complete_module_1 ''sid-1'')])) = []"
  by (simp add: server_defs example_defs auth_register_def insert_user_def post_progress_def
      insert_or_replace_progress_def schema_development_def)

section \<open>One module\<close>

text \<open>No constant \<^verbatim>\<open>modules\<close> is in scope of the handler of
  \<^verbatim>\<open>GET /api/modules/:id\<close>, and the route is registered after \<^verbatim>\<open>app.get('*', ...)\<close>.\<close>

lemma top_level_modules: "top_level ''modules'' = Unbound"
  by (simp add: top_level_def)

lemma dispatch_module_by_id:
  "dispatch Development GET [''api'', ''modules'', i] = Some Fallback"
  by (simp add: dispatch_def)

text \<open>Had the array been in the handler's scope, an id outside the catalog would be
  answered with status 200 and the empty object.\<close>

lemma get_module_by_id_with_array:
  "reply (get_module_by_id (top_level(''modules'' := Array modules)) ''99'' req s d) =
     Json 200 (JObj [])
   \<and> reply (get_module_by_id (top_level(''modules'' := Array modules)) ''abc'' req s d) =
     Json 200 (JObj [])
   \<and> reply (get_module_by_id (top_level(''modules'' := Array modules)) ''2'' req s d) =
     Json 200 (JObj [(''module'', modules ! 1)])"
  by (simp add: get_module_by_id_def parseInt_def is_js_space_def digit_of_def
      List.map_filter_def stringify_obj_def modules_def field_def respond_def)

text \<open>
  Claim C4, on the development server. For every id the handler of
  \<^verbatim>\<open>GET /api/modules/:id\<close> throws and the request ends with status 500, where the claim
  says that an unknown id is answered with a not-found indication and no id with a server
  error. In the application as it is assembled the request does not reach this handler:
  the catch-all route before it answers with the front end's entry document.
\<close>

theorem module_by_id_server_error:
  "reply (get_module_by_id top_level i req s d) = Final 500
   \<and> status_of (reply (run_handler bc sch ModuleById req s d)) = 500
   \<and> dispatch Development GET [''api'', ''modules'', i] = Some Fallback
   \<and> fst (serve Development bc sch srv (req\<lparr>meth := GET, req_path := [''api'', ''modules'', i]\<rparr>))
       = SendFile ''../frontend/index.html''"
  by (simp add: get_module_by_id_def top_level_modules respond_def serve_def served_def
      dispatch_module_by_id spa_fallback_def Let_def split: prod.splits)

section \<open>Session identifier and cookie\<close>

text \<open>The login handler of the development and production servers leaves the session
  identifier as it found it; the one of the Railway server takes the regenerated one.\<close>

lemma auth_login_keeps_sessionID:
  "sess (auth_login bc req s d) = Some s' \<Longrightarrow> sessionID s' = sessionID s"
  by (auto simp: auth_login_def respond_def split: option.splits if_splits password.splits)

lemma auth_login_railway_regenerates:
  "status_of (reply (auth_login_railway bc req s d)) = 200 \<Longrightarrow>
     map_option sessionID (sess (auth_login_railway bc req s d)) = Some (regen_id req)"
  by (auto simp: auth_login_railway_def respond_def error_body_def
      split: option.splits if_splits password.splits)

lemma after_register_alice_mallory:
  "run v example_bcrypt sch initial_server [Request register_alice, Request register_mallory] =
     \<lparr>srv_db = \<lparr>users = [\<lparr>u_id = 1, u_username = ''alice'', u_email = ''a@example.com'',
                            u_password_hash = ''$2a$10$secret1'', u_created_at = 0\<rparr>,
                          \<lparr>u_id = 2, u_username = ''mallory'', u_email = ''m@example.com'',
                            u_password_hash = ''$2a$10$hunter22'', u_created_at = 0\<rparr>],
                 users_seq = 2, user_progress = [], user_progress_seq = 0, modules_table = []\<rparr>,
      srv_store = ((\<lambda>c. None)(''sid-1'' \<mapsto>
                    \<lparr>sessionID = ''sid-1'', userId = Some 1, username = Some ''alice''\<rparr>))
                  (''sid-2'' \<mapsto>
                    \<lparr>sessionID = ''sid-2'', userId = Some 2, username = Some ''mallory''\<rparr>)\<rparr>"
  unfolding run_two step.simps after_register_alice
  by (cases v)
     (simp_all add: server_defs example_defs auth_register_def insert_user_def numeral_2_eq_2)

lemma run_three:
  "run v bc sch srv [e1, e2, e3] = step v bc sch (run v bc sch srv [e1, e2]) e3"
  by (simp add: run_def)

lemma login_alice_on_mallory_session:
  "serve Production example_bcrypt sch
     (run Production example_bcrypt sch initial_server
        [Request register_alice, Request register_mallory])
     (login_alice ''sid-2'') =
   (Json 200 (JObj [(''message'', JStr ''Login successful!''),
                    (''user'', user_json 1 ''alice'' ''a@example.com'')]),
    \<lparr>srv_db = \<lparr>users = [\<lparr>u_id = 1, u_username = ''alice'', u_email = ''a@example.com'',
                            u_password_hash = ''$2a$10$secret1'', u_created_at = 0\<rparr>,
                          \<lparr>u_id = 2, u_username = ''mallory'', u_email = ''m@example.com'',
                            u_password_hash = ''$2a$10$hunter22'', u_created_at = 0\<rparr>],
                 users_seq = 2, user_progress = [], user_progress_seq = 0, modules_table = []\<rparr>,
      srv_store = ((\<lambda>c. None)(''sid-1'' \<mapsto>
                    \<lparr>sessionID = ''sid-1'', userId = Some 1, username = Some ''alice''\<rparr>))
                  (''sid-2'' \<mapsto>
                    \<lparr>sessionID = ''sid-2'', userId = Some 1, username = Some ''alice''\<rparr>)\<rparr>)"
  unfolding after_register_alice_mallory
  by (simp add: server_defs login_alice_def blank_request_def example_bcrypt_def auth_login_def
      select_user_def)

text \<open>
  Claim C6, on the production server. Alice and mallory are registered; mallory's session
  is \<^verbatim>\<open>sid-2\<close>. A login as alice that arrives with the cookie \<^verbatim>\<open>sid-2\<close> succeeds, and
  the session after the call still has the identifier \<^verbatim>\<open>sid-2\<close>, where the claim says
  that it differs from the one the request arrived with; whoever holds that cookie is now
  alice for the server.
\<close>

theorem login_keeps_session_identifier:
  "cookie (login_alice ''sid-2'') = Some ''sid-2''
   \<and> fst (serve Production example_bcrypt schema_development
          (run Production example_bcrypt schema_development initial_server
             [Request register_alice, Request register_mallory])
          (login_alice ''sid-2''))
     = Json 200 (JObj [(''message'', JStr ''Login successful!''),
                       (''user'', user_json 1 ''alice'' ''a@example.com'')])
   \<and> sess (served Production example_bcrypt schema_development
          (run Production example_bcrypt schema_development initial_server
             [Request register_alice, Request register_mallory])
          (login_alice ''sid-2''))
     = Some \<lparr>sessionID = ''sid-2'', userId = Some 1, username = Some ''alice''\<rparr>
   \<and> fst (serve Production example_bcrypt schema_development
          (run Production example_bcrypt schema_development initial_server
             [Request register_alice, Request register_mallory, Request (login_alice ''sid-2'')])
          (current_user ''sid-2''))
     = Json 200 (JObj [(''user'', JObj [(''id'', JNum 1), (''username'', JStr ''alice'')])])"
proof -
  let ?srv = "run Production example_bcrypt schema_development initial_server
             [Request register_alice, Request register_mallory]"
  have c: "cookie (login_alice ''sid-2'') = Some ''sid-2''"
    by (simp add: login_alice_def blank_request_def)
  have s: "sess (served Production example_bcrypt schema_development ?srv (login_alice ''sid-2''))
     = Some \<lparr>sessionID = ''sid-2'', userId = Some 1, username = Some ''alice''\<rparr>"
    unfolding after_register_alice_mallory
    by (simp add: server_defs login_alice_def blank_request_def example_bcrypt_def auth_login_def
        select_user_def)
  have me: "fst (serve Production example_bcrypt schema_development
          (run Production example_bcrypt schema_development initial_server
             [Request register_alice, Request register_mallory, Request (login_alice ''sid-2'')])
          (current_user ''sid-2''))
     = Json 200 (JObj [(''user'', JObj [(''id'', JNum 1), (''username'', JStr ''alice'')])])"
    unfolding run_three step.simps login_alice_on_mallory_session
    by (simp add: server_defs current_user_def blank_request_def auth_me_def has_userId_def
        stringify_obj_def List.map_filter_def)
  from c s me show ?thesis
    by (simp add: login_alice_on_mallory_session)
qed

section \<open>Logout\<close>

lemma dispatch_logout: "dispatch v POST [''api'', ''auth'', ''logout''] = Some Logout"
  by (cases v) (simp_all add: dispatch_def)

text \<open>After a logout the store has no session under the cookie the request carried, and
  a request for the current user under that cookie is answered 401, in both servers.\<close>

lemma logout_destroys_session:
  assumes "cookie r = Some c" and "dispatch v (meth r) (req_path r) = Some Logout"
  shows "srv_store (snd (serve v bc sch srv r)) c = None"
proof (cases "srv_store srv c")
  case None
  with assms show ?thesis
    by (simp add: serve_def served_def load_session_def store_session_def auth_logout_def
        new_session_def)
next
  case (Some s)
  with assms show ?thesis
    by (simp add: serve_def served_def load_session_def store_session_def auth_logout_def)
qed

lemma current_user_without_session:
  assumes "srv_store srv c = None" and "cookie r = Some c"
    and "meth r = GET" and "req_path r = [''api'', ''auth'', ''me'']"
  shows "fst (serve v bc sch srv r) = Json 401 (error_body ''Not authenticated'')"
  using assms
  by (simp add: serve_def served_def load_session_def dispatch_me auth_me_def has_userId_def
      new_session_def respond_def)

text \<open>
  Claim C8, on the production server. Alice logs out of her session \<^verbatim>\<open>sid-1\<close>: the
  reply confirms, the session record is gone and her next request for the current user is
  answered 401; but the handler clears no cookie, where the claim says that every logout
  clears the client's cookie. The Railway server's handler clears \<^verbatim>\<open>codetrain.sid\<close>.
\<close>

theorem logout_leaves_cookie:
  "fst (serve Production example_bcrypt schema_development
          (run Production example_bcrypt schema_development initial_server
             [Request register_alice])
          (logout_of ''sid-1''))
     = Json 200 (JObj [(''message'', JStr ''Logout successful'')])
   \<and> cleared (served Production example_bcrypt schema_development
          (run Production example_bcrypt schema_development initial_server
             [Request register_alice])
          (logout_of ''sid-1'')) = []
   \<and> cleared (auth_logout_railway (logout_of ''sid-1'')
          \<lparr>sessionID = ''sid-1'', userId = Some 1, username = Some ''alice''\<rparr>
          empty_database) = [''codetrain.sid'']
   \<and> srv_store (run Production example_bcrypt schema_development initial_server
          [Request register_alice, Request (logout_of ''sid-1'')]) ''sid-1'' = None
   \<and> fst (serve Production example_bcrypt schema_development
          (run Production example_bcrypt schema_development initial_server
             [Request register_alice, Request (logout_of ''sid-1'')])
          (current_user ''sid-1''))
     = Json 401 (error_body ''Not authenticated'')"
proof -
  let ?srv = "run Production example_bcrypt schema_development initial_server
             [Request register_alice]"
  let ?out = "run Production example_bcrypt schema_development initial_server
          [Request register_alice, Request (logout_of ''sid-1'')]"
  have r: "fst (serve Production example_bcrypt schema_development ?srv (logout_of ''sid-1''))
     = Json 200 (JObj [(''message'', JStr ''Logout successful'')])"
    unfolding after_register_alice
    by (simp add: server_defs logout_of_def blank_request_def auth_logout_def)
  have c: "cleared (served Production example_bcrypt schema_development ?srv (logout_of ''sid-1''))
     = []"
    unfolding after_register_alice
    by (simp add: server_defs logout_of_def blank_request_def auth_logout_def)
  have rw: "cleared (auth_logout_railway (logout_of ''sid-1'')
          \<lparr>sessionID = ''sid-1'', userId = Some 1, username = Some ''alice''\<rparr>
          empty_database) = [''codetrain.sid'']"
    by (simp add: auth_logout_railway_def)
  have gone: "srv_store ?out ''sid-1'' = None"
    unfolding run_two step.simps
    by (rule logout_destroys_session)
       (simp_all add: logout_of_def blank_request_def dispatch_logout)
  have me: "fst (serve Production example_bcrypt schema_development ?out (current_user ''sid-1''))
     = Json 401 (error_body ''Not authenticated'')"
    by (rule current_user_without_session [OF gone])
       (simp_all add: current_user_def blank_request_def)
  from r c rw gone me show ?thesis by simp
qed

section \<open>The module list\<close>

lemma modules_keys:
  "map object_keys modules =
     [[''id'', ''title'', ''description'', ''difficulty'', ''estimated_time'', ''order_index'',
       ''content''],
      [''id'', ''title'', ''description'', ''difficulty'', ''estimated_time'', ''order_index'',
       ''content'']]"
  by (simp add: modules_def object_keys_def)

lemma modules_summaries:
  "map summary modules =
     [JObj [(''id'', JNum 1),
            (''title'', JStr ''Hello Python - Talking to the Computer''),
            (''description'', JStr ''Learn the basics of Python programming''),
            (''difficulty'', JStr ''beginner''),
            (''estimated_time'', JStr ''30 minutes''),
            (''order_index'', JNum 1)],
      JObj [(''id'', JNum 2),
            (''title'', JStr ''Functions - Teaching the Robot New Tricks''),
            (''description'', JStr ''Learn to create reusable code with functions''),
            (''difficulty'', JStr ''beginner''),
            (''estimated_time'', JStr ''45 minutes''),
            (''order_index'', JNum 2)]]"
  by (simp add: modules_def summary_def metadata_fields_def)

lemma modules_not_summaries: "map summary modules \<noteq> modules"
proof
  assume "map summary modules = modules"
  then have "map object_keys (map summary modules) = map object_keys modules"
    by simp
  then show False
    unfolding modules_keys unfolding modules_summaries by (simp add: object_keys_def)
qed

text \<open>What the static handler would send, were it reached: the whole array, each element
  with the six metadata fields and its content, which is not the list of summaries.\<close>

lemma get_modules_static_reply:
  "reply (get_modules_static req s d) = Json 200 (JObj [(''modules'', JArr modules)])
   \<and> reply (get_modules_static req s d) \<noteq> spec_ListModules
   \<and> map (field ''id'') modules = [Some (JNum 1), Some (JNum 2)]
   \<and> map (field ''order_index'') modules = [Some (JNum 1), Some (JNum 2)]"
proof -
  have ids: "map (field ''id'') modules = [Some (JNum 1), Some (JNum 2)]"
    by (simp add: modules_def field_def)
  have ord: "map (field ''order_index'') modules = [Some (JNum 1), Some (JNum 2)]"
    by (simp add: modules_def field_def)
  show ?thesis
    using modules_not_summaries
    by (simp add: get_modules_static_def respond_def ids ord spec_ListModules_def)
qed

lemma dispatch_list_modules: "dispatch Development GET [''api'', ''modules''] = Some ModulesDb"
  by (simp add: dispatch_def)

lemma spec_ListModules_not_empty: "Json 200 (JObj [(''modules'', JArr [])]) \<noteq> spec_ListModules"
  by (simp add: spec_ListModules_def modules_def)

text \<open>
  Claim C7, on the development server. \<^verbatim>\<open>GET /api/modules\<close> is registered twice, and the
  route registered first, which reads the modules table, answers. No route writes that
  table, so after any sequence of requests and expiries from the start the reply is the
  empty list, where the claim expects the two modules of the catalog as summaries. The
  handler that holds the catalog is never reached.
\<close>

theorem list_modules_answered_from_empty_table:
  "dispatch Development GET [''api'', ''modules''] = Some ModulesDb
   \<and> fst (serve Development bc sch (run Development bc sch initial_server es)
        (req\<lparr>meth := GET, req_path := [''api'', ''modules'']\<rparr>))
     = Json 200 (JObj [(''modules'', JArr [])])
   \<and> fst (serve Development bc sch (run Development bc sch initial_server es)
        (req\<lparr>meth := GET, req_path := [''api'', ''modules'']\<rparr>))
     \<noteq> spec_ListModules"
proof -
  let ?srv = "run Development bc sch initial_server es"
  let ?req = "req\<lparr>meth := GET, req_path := [''api'', ''modules'']\<rparr>"
  have empty: "modules_table (srv_db ?srv) = []"
    by (simp add: run_modules_table initial_server_def empty_database_def)
  obtain s0 is_new where ld: "load_session (srv_store ?srv) ?req = (s0, is_new)"
    by (cases "load_session (srv_store ?srv) ?req")
  have "dispatch Development (meth ?req) (req_path ?req) = Some ModulesDb"
    by (simp add: dispatch_list_modules)
  from serve_via [OF this ld] empty
  have a: "fst (serve Development bc sch ?srv ?req) = Json 200 (JObj [(''modules'', JArr [])])"
    by (simp add: get_modules_db_def respond_def)
  show ?thesis
    unfolding a using dispatch_list_modules spec_ListModules_not_empty by simp
qed

section \<open>The current user between login and logout\<close>

text \<open>Every row of a users table reached from the empty one has a positive id, so a
  session that holds it passes the test \<^verbatim>\<open>!req.session.userId\<close>, and a username that is
  not empty.\<close>

lemma insert_user_rows:
  assumes "insert_user d t name mail h = Inr (d', i)" and "name \<noteq> []"
    and "\<forall>u\<in>set (users d). 0 < u_id u \<and> u_username u \<noteq> []"
  shows "\<forall>u\<in>set (users d'). 0 < u_id u \<and> u_username u \<noteq> []"
  using assms by (auto simp: insert_user_def Let_def split: if_splits)

lemma run_handler_rows:
  assumes "\<forall>u\<in>set (users d). 0 < u_id u \<and> u_username u \<noteq> []"
  shows "\<forall>u\<in>set (users (db (run_handler bc sch h req s d))). 0 < u_id u \<and> u_username u \<noteq> []"
proof (cases h)
  case Register
  show ?thesis
  proof (cases "b_username req = []")
    case True
    with assms Register show ?thesis
      by (simp add: auth_register_def respond_def)
  next
    case False
    show ?thesis
    proof (cases "b_password req")
      case (NotText truthy short)
      with assms Register show ?thesis
        by (simp add: auth_register_def respond_def)
    next
      case (Text pw)
      show ?thesis
      proof (cases "insert_user d (now req) (b_username req) (b_email req)
                      (bcrypt_hash bc pw)")
        case (Inl e)
        with assms Register Text show ?thesis
          by (simp add: auth_register_def respond_def)
      next
        case (Inr p)
        obtain d' i where p: "p = (d', i)" by (cases p)
        from insert_user_rows [OF Inr [unfolded p] False assms] Inr p assms Register Text
        show ?thesis
          by (simp add: auth_register_def respond_def)
      qed
    qed
  qed
next
  case ProgressPost
  with assms show ?thesis
    by (auto simp: post_progress_def insert_or_replace_progress_def respond_def Let_def
        split: option.splits if_splits sum.splits)
qed (use assms in \<open>auto simp: auth_login_def auth_logout_def auth_me_def get_modules_db_def
        get_progress_def get_health_def spa_fallback_def get_modules_static_def
        get_module_by_id_def respond_def Let_def
      split: option.splits if_splits binding.splits password.splits\<close>)

lemma served_rows:
  assumes "\<forall>u\<in>set (users (srv_db srv)). 0 < u_id u \<and> u_username u \<noteq> []"
  shows "\<forall>u\<in>set (users (db (served v bc sch srv req))). 0 < u_id u \<and> u_username u \<noteq> []"
  using assms run_handler_rows [OF assms]
  by (simp add: served_def respond_def split: prod.splits option.splits)

lemma step_rows:
  assumes "\<forall>u\<in>set (users (srv_db srv)). 0 < u_id u \<and> u_username u \<noteq> []"
  shows "\<forall>u\<in>set (users (srv_db (step v bc sch srv e))). 0 < u_id u \<and> u_username u \<noteq> []"
  using assms served_rows [OF assms]
  by (cases e) (simp_all add: serve_def Let_def split: prod.splits)

lemma run_rows:
  assumes "\<forall>u\<in>set (users (srv_db srv)). 0 < u_id u \<and> u_username u \<noteq> []"
  shows "\<forall>u\<in>set (users (srv_db (run v bc sch srv es))). 0 < u_id u \<and> u_username u \<noteq> []"
  using assms unfolding run_def
proof (induction es arbitrary: srv)
  case Nil
  then show ?case by simp
next
  case (Cons e es)
  from Cons.IH [OF step_rows [OF Cons.prems]] show ?case by simp
qed

lemma reachable_rows:
  "\<forall>u\<in>set (users (srv_db (run v bc sch initial_server es))). 0 < u_id u \<and> u_username u \<noteq> []"
  by (rule run_rows) (simp add: initial_server_def empty_database_def)

lemma reachable_ids:
  "\<forall>u\<in>set (users (srv_db (run v bc sch initial_server es))). 0 < u_id u"
  using reachable_rows [of v bc sch es] by blast

text \<open>What the handlers do to the session: none changes its identifier, and only a
  logout, a login that succeeds and a registration that succeeds change its content.\<close>

lemma sess_respond: "sess (respond r s d) = Some s"
  by (simp add: respond_def)

lemma reply_respond: "reply (respond r s d) = r"
  by (simp add: respond_def)

lemma auth_register_sessionID:
  "sess (auth_register bc req s d) = Some s' \<Longrightarrow> sessionID s' = sessionID s"
  by (auto simp: auth_register_def respond_def Let_def
      split: sum.splits if_splits prod.splits password.splits)

lemma post_progress_session: "sess (post_progress sch req s d) = Some s"
  by (simp add: post_progress_def sess_respond split: option.splits sum.splits)

lemma get_progress_session: "sess (get_progress sch req s d) = Some s"
  by (simp add: get_progress_def sess_respond split: option.splits)

lemma get_module_by_id_session: "sess (get_module_by_id sc i req s d) = Some s"
  by (simp add: get_module_by_id_def sess_respond Let_def split: binding.splits)

lemma auth_me_session: "sess (auth_me req s d) = Some s"
  by (simp add: auth_me_def sess_respond)

lemma auth_register_failed:
  "status_of (reply (auth_register bc req s d)) \<noteq> 200 \<Longrightarrow>
     sess (auth_register bc req s d) = Some s"
  by (auto simp: auth_register_def respond_def Let_def
      split: sum.splits if_splits prod.splits password.splits)

lemma auth_login_failed:
  "status_of (reply (auth_login bc req s d)) \<noteq> 200 \<Longrightarrow>
     sess (auth_login bc req s d) = Some s"
  by (auto simp: auth_login_def respond_def split: option.splits if_splits password.splits)

lemma run_handler_sessionID:
  "sess (run_handler bc sch h req s d) = Some s' \<Longrightarrow> sessionID s' = sessionID s"
  by (cases h)
     (auto simp: auth_register_sessionID auth_login_keeps_sessionID post_progress_session
        get_progress_session get_module_by_id_session auth_me_session auth_logout_def
        get_modules_db_def get_health_def spa_fallback_def get_modules_static_def sess_respond)

lemma run_handler_session_kept:
  assumes "h \<noteq> Logout"
    and "h = Login \<or> h = Register \<Longrightarrow> status_of (reply (run_handler bc sch h req s d)) \<noteq> 200"
  shows "sess (run_handler bc sch h req s d) = Some s"
proof (cases h)
  case Register
  with assms(2) show ?thesis by (simp add: auth_register_failed)
next
  case Login
  with assms(2) show ?thesis by (simp add: auth_login_failed)
next
  case Logout
  with assms(1) show ?thesis by simp
qed (simp_all add: post_progress_session get_progress_session get_module_by_id_session
       auth_me_session get_modules_db_def get_health_def spa_fallback_def
       get_modules_static_def sess_respond)

lemma auth_login_success:
  assumes "status_of (reply (auth_login bc req s d)) = 200"
  obtains u where "u \<in> set (users d)" and "u_username u = b_username req"
    and "reply (auth_login bc req s d) =
           Json 200 (JObj [(''message'', JStr ''Login successful!''),
                           (''user'', user_json (u_id u) (b_username req) (u_email u))])"
    and "sess (auth_login bc req s d) =
           Some (s\<lparr>userId := Some (u_id u), username := Some (b_username req)\<rparr>)"
proof -
  from assms obtain u where u: "select_user d (b_username req) = Some u"
    by (auto simp: auth_login_def respond_def error_body_def
        split: option.splits if_splits password.splits)
  then have mem: "u \<in> set (users d)" and name: "u_username u = b_username req"
    by (auto simp: select_user_def find_Some_iff)
  from assms u name have
    "reply (auth_login bc req s d) =
       Json 200 (JObj [(''message'', JStr ''Login successful!''),
                       (''user'', user_json (u_id u) (b_username req) (u_email u))])"
    "sess (auth_login bc req s d) =
       Some (s\<lparr>userId := Some (u_id u), username := Some (b_username req)\<rparr>)"
    by (auto simp: auth_login_def respond_def split: if_splits password.splits)
  with mem name show thesis by (rule that)
qed

lemma store_session_other:
  assumes "sessionID s0 \<noteq> c" and "\<And>s'. out = Some s' \<Longrightarrow> sessionID s' = sessionID s0"
  shows "store_session v st s0 is_new out c = st c"
proof (cases out)
  case None
  with assms(1) show ?thesis by (simp add: store_session_def)
next
  case (Some s')
  from assms(2) [OF Some] assms(1) have "sessionID s' \<noteq> c" by simp
  with Some show ?thesis by (simp add: store_session_def)
qed

lemma served_sessionID:
  assumes "load_session (srv_store srv) r = (s0, is_new)"
    and "sess (served v bc sch srv r) = Some s'"
  shows "sessionID s' = sessionID s0"
  using assms
  by (auto simp: served_def respond_def dest: run_handler_sessionID split: option.splits)

text \<open>An event that does not disturb the session \<open>c\<close> leaves the user stored in it.\<close>

lemma step_keeps_login:
  assumes nd: "\<not> disturbs v bc sch c srv e"
    and st: "srv_store srv c = Some s" and uid: "userId s = Some uid"
    and name: "username s = Some n"
  shows "\<exists>s'. srv_store (step v bc sch srv e) c = Some s' \<and> userId s' = Some uid
           \<and> username s' = Some n"
proof (cases e)
  case (Expire c')
  with nd st uid name show ?thesis by simp
next
  case (Request r)
  obtain s0 is_new where ld: "load_session (srv_store srv) r = (s0, is_new)"
    by (cases "load_session (srv_store srv) r")
  let ?out = "served v bc sch srv r"
  from nd Request have answered: "reply ?out \<noteq> Rejection"
    by simp
  have store': "srv_store (step v bc sch srv e) =
      store_session v (srv_store srv) s0 is_new (sess ?out)"
    using Request ld answered by (simp add: serve_def Let_def)
  have same_id: "\<And>s'. sess ?out = Some s' \<Longrightarrow> sessionID s' = sessionID s0"
    by (rule served_sessionID [OF ld])
  show ?thesis
  proof (cases "sessionID s0 = c")
    case False
    from store_session_other [OF False same_id] store' st uid name show ?thesis
      by simp
  next
    case True
    have not_new: "\<not> is_new"
    proof
      assume "is_new"
      with ld have "s0 = new_session (fresh_id r)"
        by (auto simp: load_session_def split: option.splits)
      with True have "fresh_id r = c" by (simp add: new_session_def)
      with nd Request ld \<open>is_new\<close> show False by simp
    qed
    with ld True st have s0: "s0 = s\<lparr>sessionID := c\<rparr>"
      by (auto simp: load_session_def split: option.splits)
    have kept: "sess ?out = Some s0"
    proof (cases "dispatch v (meth r) (req_path r)")
      case None
      with ld show ?thesis by (simp add: served_def respond_def)
    next
      case (Some h)
      with ld have out: "?out = run_handler bc sch h r s0 (srv_db srv)"
        by (simp add: served_def)
      from nd Request ld not_new True Some have "h \<noteq> Logout"
        by auto
      moreover from nd Request ld not_new True Some out
      have "h = Login \<or> h = Register \<Longrightarrow>
              status_of (reply (run_handler bc sch h r s0 (srv_db srv))) \<noteq> 200"
        by auto
      ultimately show ?thesis
        unfolding out by (rule run_handler_session_kept)
    qed
    with store' not_new True s0 uid name show ?thesis
      by (simp add: store_session_def)
  qed
qed

lemma run_keeps_login:
  assumes "undisturbed v bc sch c srv es"
    and "srv_store srv c = Some s" and "userId s = Some uid" and "username s = Some n"
  shows "\<exists>s'. srv_store (run v bc sch srv es) c = Some s' \<and> userId s' = Some uid
           \<and> username s' = Some n"
  using assms
proof (induction es arbitrary: srv s)
  case Nil
  then show ?case by (simp add: run_def)
next
  case (Cons e es)
  from Cons.prems have nd: "\<not> disturbs v bc sch c srv e"
    and rest: "undisturbed v bc sch c (step v bc sch srv e) es"
    by simp_all
  from step_keeps_login [OF nd Cons.prems(2-4)] obtain s'
    where "srv_store (step v bc sch srv e) c = Some s'" "userId s' = Some uid"
      "username s' = Some n"
    by blast
  from Cons.IH [OF rest this] show ?case
    by (simp add: run_def)
qed

lemma current_user_with_session:
  assumes "srv_store srv c = Some s" and "userId s = Some uid" and "uid \<noteq> 0"
    and "username s = Some n"
    and "cookie r = Some c" and "dispatch v (meth r) (req_path r) = Some Me"
  shows "fst (serve v bc sch srv r) =
           Json 200 (JObj [(''user'', JObj [(''id'', JNum (int uid)), (''username'', JStr n)])])"
  using assms
  by (simp add: serve_def served_def load_session_def auth_me_def has_userId_def
      respond_def stringify_obj_def List.map_filter_def)

lemma login_stores_user:
  assumes lg: "dispatch v (meth rl) (req_path rl) = Some Login"
    and ok: "status_of (fst (serve v bc sch srv rl)) = 200"
    and ids: "\<forall>u\<in>set (users (srv_db srv)). 0 < u_id u"
  obtains uid mail s' where "uid \<noteq> 0"
    and "fst (serve v bc sch srv rl) =
           Json 200 (JObj [(''message'', JStr ''Login successful!''),
                           (''user'', user_json uid (b_username rl) mail)])"
    and "srv_store (snd (serve v bc sch srv rl))
           (sessionID (fst (load_session (srv_store srv) rl))) = Some s'"
    and "userId s' = Some uid" and "username s' = Some (b_username rl)"
proof -
  obtain s0 is_new where ld: "load_session (srv_store srv) rl = (s0, is_new)"
    by (cases "load_session (srv_store srv) rl")
  from lg ld have out: "served v bc sch srv rl = auth_login bc rl s0 (srv_db srv)"
    by (simp add: served_def)
  from ok ld have "status_of (reply (auth_login bc rl s0 (srv_db srv))) = 200"
    by (simp add: serve_def out Let_def)
  then obtain u where u: "u \<in> set (users (srv_db srv))"
    and r: "reply (auth_login bc rl s0 (srv_db srv)) =
           Json 200 (JObj [(''message'', JStr ''Login successful!''),
                           (''user'', user_json (u_id u) (b_username rl) (u_email u))])"
    and s: "sess (auth_login bc rl s0 (srv_db srv)) =
           Some (s0\<lparr>userId := Some (u_id u), username := Some (b_username rl)\<rparr>)"
    by (rule auth_login_success)
  let ?s' = "s0\<lparr>userId := Some (u_id u), username := Some (b_username rl)\<rparr>"
  from u ids have pos: "u_id u \<noteq> 0" by auto
  have new: "is_new \<Longrightarrow> ?s' \<noteq> s0"
  proof -
    assume "is_new"
    with ld have "userId s0 = None"
      by (auto simp: load_session_def new_session_def split: option.splits)
    show "?s' \<noteq> s0"
    proof
      assume "?s' = s0"
      then have "userId ?s' = userId s0" by simp
      with \<open>userId s0 = None\<close> show False by simp
    qed
  qed
  have "srv_store (snd (serve v bc sch srv rl)) (sessionID s0) = Some ?s'"
    using ld s r new by (auto simp: serve_def out Let_def store_session_def)
  moreover have "fst (serve v bc sch srv rl) =
           Json 200 (JObj [(''message'', JStr ''Login successful!''),
                           (''user'', user_json (u_id u) (b_username rl) (u_email u))])"
    using ld r by (simp add: serve_def out Let_def)
  ultimately show thesis
    using pos ld by (intro that [of "u_id u" "u_email u" ?s']) simp_all
qed

lemma reply_username_login:
  "reply_username (Json 200 (JObj [(''message'', m), (''user'', user_json uid n mail)])) = Some n"
  by (simp add: reply_username_def field_def user_json_def)

lemma reply_username_me:
  "reply_username (Json 200 (JObj [(''user'', JObj [(''id'', i), (''username'', JStr n)])])) =
     Some n"
  by (simp add: reply_username_def field_def)

text \<open>
  Claim C9, amended. In either server, in a state reached from the start, let a login
  succeed, and let \<open>c\<close> be the identifier of its session. Whatever requests and expiries
  follow, as long as none of them is an expiry of \<open>c\<close>, a logout of \<open>c\<close>, another
  successful login or a successful registration in \<open>c\<close>, ends the process, or hands the
  identifier \<open>c\<close> out anew, a request for the current user under the cookie \<open>c\<close>, in
  any spelling of the path that the route matches, is answered 200 with the username of
  the login reply, which is the username that was submitted.
\<close>

theorem current_user_stable:
  assumes "dispatch v (meth rl) (req_path rl) = Some Login"
    and "status_of (fst (serve v bc sch (run v bc sch initial_server es0) rl)) = 200"
    and "c = sessionID (fst (load_session (srv_store (run v bc sch initial_server es0)) rl))"
    and "undisturbed v bc sch c (snd (serve v bc sch (run v bc sch initial_server es0) rl)) es"
    and "cookie rm = Some c" and "dispatch v (meth rm) (req_path rm) = Some Me"
  shows "status_of (fst (serve v bc sch
            (run v bc sch (snd (serve v bc sch (run v bc sch initial_server es0) rl)) es) rm))
           = 200
         \<and> reply_username (fst (serve v bc sch
            (run v bc sch (snd (serve v bc sch (run v bc sch initial_server es0) rl)) es) rm))
           = reply_username (fst (serve v bc sch (run v bc sch initial_server es0) rl))
         \<and> reply_username (fst (serve v bc sch (run v bc sch initial_server es0) rl))
           = Some (b_username rl)"
proof -
  let ?srv0 = "run v bc sch initial_server es0"
  let ?srv1 = "snd (serve v bc sch ?srv0 rl)"
  from assms(1,2) reachable_ids [of v bc sch es0]
  obtain uid mail s' where uid: "uid \<noteq> 0"
    and r: "fst (serve v bc sch ?srv0 rl) =
           Json 200 (JObj [(''message'', JStr ''Login successful!''),
                           (''user'', user_json uid (b_username rl) mail)])"
    and s: "srv_store ?srv1 (sessionID (fst (load_session (srv_store ?srv0) rl))) = Some s'"
      "userId s' = Some uid" "username s' = Some (b_username rl)"
    by (rule login_stores_user)
  from s(1) assms(3) have s1: "srv_store ?srv1 c = Some s'" by simp
  from run_keeps_login [OF assms(4) s1 s(2,3)] obtain s''
    where s'': "srv_store (run v bc sch ?srv1 es) c = Some s''" "userId s'' = Some uid"
      "username s'' = Some (b_username rl)"
    by blast
  from current_user_with_session [OF s''(1,2) uid s''(3) assms(5,6)]
  have me: "fst (serve v bc sch (run v bc sch ?srv1 es) rm) =
      Json 200 (JObj [(''user'', JObj [(''id'', JNum (int uid)),
                                       (''username'', JStr (b_username rl))])])" .
  show ?thesis
    unfolding me r by (simp add: reply_username_login reply_username_me)
qed

lemma login_alice_own_session:
  "serve Development example_bcrypt sch
     (run Development example_bcrypt sch initial_server
        [Request register_alice, Request register_mallory])
     (login_alice ''sid-1'') =
   (Json 200 (JObj [(''message'', JStr ''Login successful!''),
                    (''user'', user_json 1 ''alice'' ''a@example.com'')]),
    \<lparr>srv_db = \<lparr>users = [\<lparr>u_id = 1, u_username = ''alice'', u_email = ''a@example.com'',
                            u_password_hash = ''$2a$10$secret1'', u_created_at = 0\<rparr>,
                          \<lparr>u_id = 2, u_username = ''mallory'', u_email = ''m@example.com'',
                            u_password_hash = ''$2a$10$hunter22'', u_created_at = 0\<rparr>],
                 users_seq = 2, user_progress = [], user_progress_seq = 0, modules_table = []\<rparr>,
      srv_store = ((\<lambda>c. None)(''sid-1'' \<mapsto>
                    \<lparr>sessionID = ''sid-1'', userId = Some 1, username = Some ''alice''\<rparr>))
                  (''sid-2'' \<mapsto>
                    \<lparr>sessionID = ''sid-2'', userId = Some 2, username = Some ''mallory''\<rparr>)\<rparr>)"
  unfolding after_register_alice_mallory
  by (simp add: server_defs login_alice_def blank_request_def example_bcrypt_def auth_login_def
      select_user_def fun_upd_twist)

text \<open>The routes match whatever the case of the letters and with a slash at the end; a
  logout spelled in capitals under the session's cookie disturbs it, and so does a login
  that ends the process, under whatever cookie: the store is empty afterwards.\<close>

lemma dispatch_ignores_case:
  "dispatch v POST (segments ''/API/AUTH/LOGOUT'') = Some Logout
   \<and> dispatch v POST (segments ''/api/auth/Login/'') = Some Login
   \<and> dispatch v POST (segments ''/Api/Auth/Register'') = Some Register
   \<and> dispatch v GET (segments ''/API/auth/Me/'') = Some Me"
  by (cases v) (simp_all add: segments_def dispatch_def lower_def)

lemma logout_in_capitals_disturbs:
  "disturbs Development example_bcrypt schema_development ''sid-1''
     (snd (serve Development example_bcrypt schema_development
        (run Development example_bcrypt schema_development initial_server
           [Request register_alice, Request register_mallory])
        (login_alice ''sid-1'')))
     (Request ((logout_of ''sid-1'')\<lparr>req_path := segments ''/API/AUTH/LOGOUT''\<rparr>))"
  unfolding login_alice_own_session
  by (simp add: load_session_def logout_of_def blank_request_def segments_def dispatch_def
      lower_def)

lemma rejected_login_disturbs:
  "disturbs Development example_bcrypt schema_development ''sid-1''
     (snd (serve Development example_bcrypt schema_development
        (run Development example_bcrypt schema_development initial_server
           [Request register_alice, Request register_mallory])
        (login_alice ''sid-1'')))
     (Request ((login_alice ''sid-2'')\<lparr>b_password := NotText True False\<rparr>))
   \<and> fst (serve Development example_bcrypt schema_development
        (step Development example_bcrypt schema_development
           (snd (serve Development example_bcrypt schema_development
              (run Development example_bcrypt schema_development initial_server
                 [Request register_alice, Request register_mallory])
              (login_alice ''sid-1'')))
           (Request ((login_alice ''sid-2'')\<lparr>b_password := NotText True False\<rparr>)))
        (current_user ''sid-1''))
     = Json 401 (error_body ''Not authenticated'')"
  unfolding login_alice_own_session
  by (simp add: server_defs login_alice_def current_user_def blank_request_def auth_login_def
      select_user_def auth_me_def has_userId_def)

text \<open>
  Alice logs in to her session; then she saves progress, a login with a wrong password
  fails in her session, and mallory logs out of his own. She is still the current user,
  also when the path of her request is spelled \<^verbatim>\<open>/API/auth/Me/\<close>.
\<close>

theorem current_user_stable_witness:
  "dispatch Development (meth (login_alice ''sid-1'')) (req_path (login_alice ''sid-1''))
     = Some Login
   \<and> status_of (fst (serve Development example_bcrypt schema_development
        (run Development example_bcrypt schema_development initial_server
           [Request register_alice, Request register_mallory])
        (login_alice ''sid-1''))) = 200
   \<and> undisturbed Development example_bcrypt schema_development ''sid-1''
        (snd (serve Development example_bcrypt schema_development
           (run Development example_bcrypt schema_development initial_server
              [Request register_alice, Request register_mallory])
           (login_alice ''sid-1'')))
        [Request (complete_module_1 ''sid-1''),
         Request ((login_alice ''sid-1'')\<lparr>b_password := Text ''wrong''\<rparr>),
         Request (logout_of ''sid-2'')]
   \<and> reply_username (fst (serve Development example_bcrypt schema_development
        (run Development example_bcrypt schema_development
           (snd (serve Development example_bcrypt schema_development
              (run Development example_bcrypt schema_development initial_server
                 [Request register_alice, Request register_mallory])
              (login_alice ''sid-1'')))
           [Request (complete_module_1 ''sid-1''),
            Request ((login_alice ''sid-1'')\<lparr>b_password := Text ''wrong''\<rparr>),
            Request (logout_of ''sid-2'')])
        ((current_user ''sid-1'')\<lparr>req_path := segments ''/API/auth/Me/''\<rparr>))) = Some ''alice''"
proof -
  let ?srv0 = "run Development example_bcrypt schema_development initial_server
           [Request register_alice, Request register_mallory]"
  let ?rl = "login_alice ''sid-1''"
  let ?es = "[Request (complete_module_1 ''sid-1''),
         Request ((login_alice ''sid-1'')\<lparr>b_password := Text ''wrong''\<rparr>),
         Request (logout_of ''sid-2'')]"
  have h1: "dispatch Development (meth ?rl) (req_path ?rl) = Some Login"
    by (simp add: login_alice_def blank_request_def dispatch_def)
  have h2: "status_of (fst (serve Development example_bcrypt schema_development ?srv0 ?rl)) = 200"
    by (simp add: login_alice_own_session)
  have h3: "''sid-1'' = sessionID (fst (load_session (srv_store ?srv0) ?rl))"
    unfolding after_register_alice_mallory
    by (simp add: load_session_def login_alice_def blank_request_def)
  have h4: "undisturbed Development example_bcrypt schema_development ''sid-1''
        (snd (serve Development example_bcrypt schema_development ?srv0 ?rl)) ?es"
    unfolding login_alice_own_session
    by (simp add: server_defs example_defs post_progress_def insert_or_replace_progress_def
        schema_development_def auth_login_def select_user_def auth_logout_def)
  let ?rm = "(current_user ''sid-1'')\<lparr>req_path := segments ''/API/auth/Me/''\<rparr>"
  have h5: "cookie ?rm = Some ''sid-1''"
    "dispatch Development (meth ?rm) (req_path ?rm) = Some Me"
    by (simp_all add: current_user_def blank_request_def segments_def dispatch_def lower_def)
  have name: "b_username ?rl = ''alice''"
    by (simp add: login_alice_def blank_request_def)
  from current_user_stable [OF h1 h2 h3 h4 h5] h1 h2 h4 name
  show ?thesis by simp
qed

text \<open>
  Claim C9 as it is stated fails. Alice logs in to the session \<^verbatim>\<open>sid-1\<close>; with no logout
  and no expiry, a registration of mallory sent under the same cookie succeeds and
  stores mallory in the session, and the current user of \<^verbatim>\<open>sid-1\<close> is then mallory.
\<close>

theorem current_user_replaced_counterexample:
  "reply_username (fst (serve Development example_bcrypt schema_development
      (run Development example_bcrypt schema_development initial_server
         [Request register_alice])
      (login_alice ''sid-1''))) = Some ''alice''
   \<and> reply_username (fst (serve Development example_bcrypt schema_development
      (run Development example_bcrypt schema_development initial_server
         [Request register_alice, Request (login_alice ''sid-1''),
          Request (register_mallory\<lparr>cookie := Some ''sid-1''\<rparr>)])
      (current_user ''sid-1''))) = Some ''mallory''"
proof -
  have a: "reply_username (fst (serve Development example_bcrypt schema_development
      (run Development example_bcrypt schema_development initial_server
         [Request register_alice])
      (login_alice ''sid-1''))) = Some ''alice''"
    unfolding after_register_alice
    by (simp add: server_defs login_alice_def blank_request_def example_bcrypt_def auth_login_def
        select_user_def reply_username_def field_def user_json_def)
  have s: "run Development example_bcrypt schema_development initial_server
         [Request register_alice, Request (login_alice ''sid-1''),
          Request (register_mallory\<lparr>cookie := Some ''sid-1''\<rparr>)] =
     \<lparr>srv_db = \<lparr>users = [\<lparr>u_id = 1, u_username = ''alice'', u_email = ''a@example.com'',
                            u_password_hash = ''$2a$10$secret1'', u_created_at = 0\<rparr>,
                          \<lparr>u_id = 2, u_username = ''mallory'', u_email = ''m@example.com'',
                            u_password_hash = ''$2a$10$hunter22'', u_created_at = 0\<rparr>],
                 users_seq = 2, user_progress = [], user_progress_seq = 0, modules_table = []\<rparr>,
      srv_store = (\<lambda>c. None)(''sid-1'' \<mapsto>
                    \<lparr>sessionID = ''sid-1'', userId = Some 2, username = Some ''mallory''\<rparr>)\<rparr>"
    by (simp add: server_defs example_defs auth_register_def insert_user_def auth_login_def
        select_user_def numeral_2_eq_2)
  have b: "reply_username (fst (serve Development example_bcrypt schema_development
      (run Development example_bcrypt schema_development initial_server
         [Request register_alice, Request (login_alice ''sid-1''),
          Request (register_mallory\<lparr>cookie := Some ''sid-1''\<rparr>)])
      (current_user ''sid-1''))) = Some ''mallory''"
    unfolding s
    by (simp add: server_defs current_user_def blank_request_def auth_me_def has_userId_def
        stringify_obj_def List.map_filter_def reply_username_def field_def)
  from a b show ?thesis by simp
qed

end
